theory Spec2Isabelle
  imports Complex_Main "HOL-Library.Word" "HOL-Library.Sublist"
begin

section \<open>Values and errors\<close>

text \<open>
  \<open>Float_t\<close> and \<open>Double_t\<close> are ROOT's names for the C++ types \<open>float\<close> and
  \<open>double\<close>. A finite floating-point number is modelled by the real number it denotes;
  the places where the source converts from an integer or between the two precisions are
  written out as explicit rounding steps. Infinities and NaN are not values of the model.
  Row counts (\<open>ULong64_t\<close>, \<open>Long64_t\<close>, \<open>size_t\<close>) are natural numbers: they count
  entries that are held in memory, so the 64-bit index arithmetic of the source never
  wraps. A handle of the boosting library is an opaque pointer, modelled by a number.
\<close>

type_synonym Float_t = real
type_synonym Double_t = real
type_synonym handle = nat

text \<open>
  The ways an operation of the source can stop without a result: a C++
  \<open>runtime_error\<close> carrying its message, the exception of the data frame for a column
  that cannot be read, the integer division by zero of the balanced-weight expression,
  and a write behind the end of an array.
\<close>

datatype error =
    runtime_error string
  | unknown_column string
  | division_by_zero
  | out_of_bounds

section \<open>Integer to floating-point conversion\<close>

fun bit_length :: "nat \<Rightarrow> nat" where
  "bit_length n = (if n = 0 then 0 else Suc (bit_length (n div 2)))"

declare bit_length.simps [simp del]

text \<open>
  \<open>round_nearest_even p n\<close> is the value nearest to the integer \<open>n\<close> among those with at
  most \<open>p\<close> significant bits, ties going to the even significand: the rounding of IEEE 754
  that a conversion to \<open>double\<close> (\<open>p = 53\<close>) or to \<open>float\<close> (\<open>p = 24\<close>) performs. All
  integers met here are below \<open>2 ^ 65\<close>, far from the overflow threshold of either format.
\<close>

definition round_nearest_even :: "nat \<Rightarrow> nat \<Rightarrow> nat" where
  "round_nearest_even p n =
     (let e = bit_length n - p;
          q = n div 2 ^ e;
          r = n mod 2 ^ e
      in if 2 * r < 2 ^ e \<or> (2 * r = 2 ^ e \<and> even q) then q * 2 ^ e else (q + 1) * 2 ^ e)"

text \<open>
  The expression \<open>1.0 + (a / b)\<close> of the source with \<open>a\<close>, \<open>b\<close> of type \<open>ULong64_t\<close>,
  assigned to a \<open>Float_t\<close>. The quotient \<open>q\<close> is the truncating integer division; it is
  converted to \<open>double\<close>, \<open>1.0\<close> is added in \<open>double\<close>, and the sum is narrowed to
  \<open>float\<close>. A zero divisor is the error \<open>division_by_zero\<close>.
\<close>

definition one_plus_as_Float_t :: "nat \<Rightarrow> Float_t" where
  "one_plus_as_Float_t q =
     of_nat (round_nearest_even 24 (round_nearest_even 53 (1 + round_nearest_even 53 q)))"

definition balanced_weight :: "nat \<Rightarrow> nat \<Rightarrow> error + Float_t" where
  "balanced_weight a b =
     (if b = 0 then Inl division_by_zero else Inr (one_plus_as_Float_t (a div b)))"

section \<open>Trees and data frames\<close>

text \<open>
  A \<open>TTree\<close> seen through \<open>ROOT::RDataFrame\<close>: the names of its branches that can be read
  as \<open>Float_t\<close>, and one valuation of the branches per entry. \<open>Count\<close> is the number of
  entries and \<open>Take\<close> reads one column, raising for any other name. The column comes in
  the order of the entries, which is what a data frame yields when its event loop runs
  sequentially.
\<close>

record TTree =
  branches :: "string list"
  entries :: "(string \<Rightarrow> Float_t) list"

definition Count :: "TTree \<Rightarrow> nat" where
  "Count t = length (entries t)"

definition Take :: "TTree \<Rightarrow> string \<Rightarrow> error + Float_t list" where
  "Take t var =
     (if var \<in> set (branches t) then Inr (map (\<lambda>e. e var) (entries t))
      else Inl (unknown_column var))"

section \<open>Arrays\<close>

text \<open>
  An array is the list of its cells; a cell that was never written holds no value
  (\<open>None\<close>), as the contents of a fresh \<open>new Float_t[n]\<close> or of a variable-length array
  are indeterminate. A write outside the array is an error. How much memory the stack or
  the heap can provide for an array is outside the model.
\<close>

type_synonym array = "Float_t option list"
type_synonym matrix = "Float_t option list list"

definition store :: "array \<Rightarrow> nat \<Rightarrow> Float_t \<Rightarrow> error + array" where
  "store a i v = (if i < length a then Inr (a[i := Some v]) else Inl out_of_bounds)"

definition store2 :: "matrix \<Rightarrow> nat \<Rightarrow> nat \<Rightarrow> Float_t \<Rightarrow> error + matrix" where
  "store2 m i j v =
     (if i < length m \<and> j < length (m ! i) then Inr (m[i := (m ! i)[j := Some v]])
      else Inl out_of_bounds)"

section \<open>The conversion result\<close>

record xgboost_data =
  sb_dmats :: "handle option"
  weights :: array
  labels :: array
  n_sig :: nat
  n_bgd :: nat

text \<open>The constructor allocates both arrays and leaves the matrix handle unset.\<close>

definition new_xgboost_data :: "nat \<Rightarrow> nat \<Rightarrow> xgboost_data" where
  "new_xgboost_data ns nb =
     \<lparr> sb_dmats = None,
       weights = replicate (ns + nb) None,
       labels = replicate (ns + nb) None,
       n_sig = ns,
       n_bgd = nb \<rparr>"

section \<open>The tree-pair adapter: matrix, labels and weights\<close>

text \<open>
  The two inner iterations of the adapter: the values of one column are written to column \<open>j\<close>
  of consecutive rows, starting at row \<open>i\<close>; the row reached is returned.
\<close>

fun fill_rows :: "Float_t list \<Rightarrow> nat \<Rightarrow> nat \<Rightarrow> matrix \<Rightarrow> error + (matrix \<times> nat)" where
  "fill_rows [] i j m = Inr (m, i)"
| "fill_rows (x # xs) i j m =
     (case store2 m i j x of
        Inl e \<Rightarrow> Inl e
      | Inr m' \<Rightarrow> fill_rows xs (Suc i) j m')"

text \<open>
  The outer iteration over the requested variables: for each, the signal column is taken and
  written from row 0, then the background column is taken and written after it.
\<close>

fun fill_vars :: "TTree \<Rightarrow> TTree \<Rightarrow> string list \<Rightarrow> nat \<Rightarrow> matrix \<Rightarrow> error + matrix" where
  "fill_vars sg bg [] j m = Inr m"
| "fill_vars sg bg (var # vars) j m =
     (case Take sg var of
        Inl e \<Rightarrow> Inl e
      | Inr sig_col \<Rightarrow>
          (case fill_rows sig_col 0 j m of
             Inl e \<Rightarrow> Inl e
           | Inr (m1, i1) \<Rightarrow>
               (case Take bg var of
                  Inl e \<Rightarrow> Inl e
                | Inr bgd_col \<Rightarrow>
                    (case fill_rows bgd_col i1 j m1 of
                       Inl e \<Rightarrow> Inl e
                     | Inr (m2, i2) \<Rightarrow> fill_vars sg bg vars (Suc j) m2))))"

text \<open>
  The iteration \<open>for (k = first; k < stop; k++) { labels[k] = l; weights[k] = w; }\<close>.
\<close>

function assign_rows ::
  "nat \<Rightarrow> nat \<Rightarrow> Float_t \<Rightarrow> Float_t \<Rightarrow> xgboost_data \<Rightarrow> error + xgboost_data" where
  "assign_rows k stop l w data =
     (if k < stop then
        (case store (labels data) k l of
           Inl e \<Rightarrow> Inl e
         | Inr ls \<Rightarrow>
             (case store (weights data) k w of
                Inl e \<Rightarrow> Inl e
              | Inr ws \<Rightarrow> assign_rows (Suc k) stop l w (data\<lparr>labels := ls, weights := ws\<rparr>)))
      else Inr data)"
  by pat_completeness auto
termination
  by (relation "measure (\<lambda>(k, stop, l, w, data). stop - k)") auto

declare assign_rows.simps [simp del]

text \<open>The weight of a class: the supplied one, or the balanced one when the pointer is null.\<close>

definition class_weight :: "Float_t option \<Rightarrow> nat \<Rightarrow> nat \<Rightarrow> error + Float_t" where
  "class_weight given n_other n_own =
     (case given of None \<Rightarrow> balanced_weight n_other n_own | Some w \<Rightarrow> Inr w)"

text \<open>
  Everything the adapter does before it calls the boosting library: the feature matrix,
  then the bundle with the signal rows and the background rows labelled and weighted.
\<close>

definition ROOTToXGBoost_rows ::
  "TTree \<Rightarrow> TTree \<Rightarrow> string list \<Rightarrow> Float_t option \<Rightarrow> Float_t option
     \<Rightarrow> error + (matrix \<times> xgboost_data)" where
  "ROOTToXGBoost_rows signal_tree background_tree variables sig_weight bgd_weight =
     (let ns = Count signal_tree;
          nb = Count background_tree;
          n_vars = length variables
      in case fill_vars signal_tree background_tree variables 0
                (replicate (ns + nb) (replicate n_vars None)) of
           Inl e \<Rightarrow> Inl e
         | Inr sb_mat \<Rightarrow>
             (case class_weight sig_weight nb ns of
                Inl e \<Rightarrow> Inl e
              | Inr sw \<Rightarrow>
                  (case assign_rows 0 ns 0 sw (new_xgboost_data ns nb) of
                     Inl e \<Rightarrow> Inl e
                   | Inr data1 \<Rightarrow>
                       (case class_weight bgd_weight ns nb of
                          Inl e \<Rightarrow> Inl e
                        | Inr bw \<Rightarrow>
                            (case assign_rows ns (ns + nb) 1 bw data1 of
                               Inl e \<Rightarrow> Inl e
                             | Inr data2 \<Rightarrow> Inr (sb_mat, data2))))))"

section \<open>The boosting library\<close>

text \<open>
  The calls of the XGBoost C interface that the adapters, the trainer and the release
  method make, with the arguments they read. A matrix is passed as the row-major
  sequence of its cells. The handle a creating call writes through its last argument is
  not an argument of the call; the library model supplies it.
\<close>

datatype xgb_call =
    XGDMatrixCreateFromMat array nat nat Float_t
  | XGDMatrixSetFloatInfo "handle option" string array nat
  | XGDMatrixFree "handle option"
  | XGBoosterCreate "handle option list" nat
  | XGBoosterSetParam handle string string
  | XGBoosterUpdateOneIter handle int "handle option"

type_synonym history = "xgb_call list"

text \<open>
  The library is external. Its behaviour is a parameter: for every sequence of earlier
  calls, the status a call returns and the handle it yields, and the text
  \<open>XGBGetLastError\<close> returns after a sequence of calls. The state that the operations
  below thread through is the sequence of calls made so far.
\<close>

record xgb_lib =
  status :: "history \<Rightarrow> xgb_call \<Rightarrow> int"
  out_handle :: "history \<Rightarrow> xgb_call \<Rightarrow> handle"
  XGBGetLastError :: "history \<Rightarrow> string"

text \<open>\<open>std::to_string\<close> on a line number.\<close>

fun to_string :: "nat \<Rightarrow> string" where
  "to_string n =
     (if n < 10 then [char_of (48 + n)]
      else to_string (n div 10) @ [char_of (48 + n mod 10)])"

declare to_string.simps [simp del]

text \<open>
  The macro \<open>safe_xgboost(call)\<close>: the call is made, and a status other than zero is
  thrown as a \<open>runtime_error\<close> whose message is built from \<open>__FILE__\<close>, \<open>__LINE__\<close>,
  the text of the macro argument and the library's last error. The file name depends on
  how the sources are compiled and is a parameter.
\<close>

definition safe_xgboost ::
  "xgb_lib \<Rightarrow> string \<Rightarrow> nat \<Rightarrow> string \<Rightarrow> xgb_call \<Rightarrow> history \<Rightarrow> (error + unit) \<times> history" where
  "safe_xgboost lib path line text call tr =
     (let err = status lib tr call;
          tr' = tr @ [call]
      in if err \<noteq> 0 then
           (Inl (runtime_error (path @ '':'' @ to_string line @ '': error in '' @ text @ '':''
                                  @ XGBGetLastError lib tr')), tr')
         else (Inr (), tr'))"

text \<open>
  The last two statements of both adapters: the matrix is created from the feature
  buffer, with \<open>0\<close> as the value that marks a missing entry, and the label array is
  attached to it under the name \<open>label\<close>. The line numbers and call texts of the two
  sites differ and are arguments.
\<close>

definition populate_dmatrix ::
  "xgb_lib \<Rightarrow> string \<Rightarrow> nat \<Rightarrow> string \<Rightarrow> nat \<Rightarrow> string \<Rightarrow> matrix \<Rightarrow> nat \<Rightarrow> nat
     \<Rightarrow> xgboost_data \<Rightarrow> history \<Rightarrow> (error + xgboost_data) \<times> history" where
  "populate_dmatrix lib path line1 text1 line2 text2 sb_mat nrow ncol data tr =
     (let create = XGDMatrixCreateFromMat (concat sb_mat) nrow ncol 0
      in case safe_xgboost lib path line1 text1 create tr of
           (r1, tr1) \<Rightarrow>
             (case r1 of
                Inl e \<Rightarrow> (Inl e, tr1)
              | Inr u \<Rightarrow>
                  (let data' = data\<lparr>sb_dmats := Some (out_handle lib tr create)\<rparr>
                   in case safe_xgboost lib path line2 text2
                             (XGDMatrixSetFloatInfo (sb_dmats data') ''label'' (labels data') nrow) tr1 of
                        (r2, tr2) \<Rightarrow>
                          (case r2 of
                             Inl e \<Rightarrow> (Inl e, tr2)
                           | Inr u \<Rightarrow> (Inr data', tr2)))))"

section \<open>The tree-pair adapter\<close>

definition ROOTToXGBoost ::
  "xgb_lib \<Rightarrow> string \<Rightarrow> TTree \<Rightarrow> TTree \<Rightarrow> string list \<Rightarrow> Float_t option \<Rightarrow> Float_t option
     \<Rightarrow> history \<Rightarrow> (error + xgboost_data) \<times> history" where
  "ROOTToXGBoost lib path signal_tree background_tree variables sig_weight bgd_weight tr =
     (case ROOTToXGBoost_rows signal_tree background_tree variables sig_weight bgd_weight of
        Inl e \<Rightarrow> (Inl e, tr)
      | Inr (sb_mat, data) \<Rightarrow>
          populate_dmatrix lib path
            71 (''XGDMatrixCreateFromMat((Float_t*) sb_mat, *n_sig + *n_bgd, n_vars, 0, ''
                @ ''&((data->sb_dmats)[0]))'')
            72 (''XGDMatrixSetFloatInfo((data->sb_dmats)[0], '' @ [CHR 0x22] @ ''label'' @ [CHR 0x22]
                @ '', data->labels, *n_sig + *n_bgd)'')
            sb_mat (Count signal_tree + Count background_tree) (length variables) data tr)"

section \<open>The mixed-dataset adapter\<close>

text \<open>
  What the adapter reads of TMVA: the partition selector, an event with its values, its
  weight and its class, the data set with its recorded counts and its event collections,
  and the classification of an event by the data set's description.
\<close>

datatype ETreeType = kTraining | kTesting | kMaxTreeType | kValidation | kTrainingOriginal

record Event =
  GetValue :: "nat \<Rightarrow> Float_t"
  GetOriginalWeight :: Double_t
  GetClass :: nat

record DataSet =
  GetNVariables :: nat
  GetNEvtSigTest :: nat
  GetNEvtBkgdTest :: nat
  GetNEvtSigTrain :: nat
  GetNEvtBkgdTrain :: nat
  GetEventCollection :: "ETreeType \<Rightarrow> Event list"

record DataSetInfo =
  GetDataSet :: DataSet
  IsSignal :: "Event \<Rightarrow> bool"

text \<open>The iteration \<open>for (j = 0; j < n_vars; j++) sb_mat[i][j] = event->GetValue(j)\<close>.\<close>

function fill_values :: "Event \<Rightarrow> nat \<Rightarrow> nat \<Rightarrow> nat \<Rightarrow> matrix \<Rightarrow> error + matrix" where
  "fill_values event i j n_vars m =
     (if j < n_vars then
        (case store2 m i j (GetValue event j) of
           Inl e \<Rightarrow> Inl e
         | Inr m' \<Rightarrow> fill_values event i (Suc j) n_vars m')
      else Inr m)"
  by pat_completeness auto
termination
  by (relation "measure (\<lambda>(event, i, j, n_vars, m). n_vars - j)") auto

declare fill_values.simps [simp del]

text \<open>
  The iteration over the event collection. The weight of an event is a \<open>Double_t\<close> and is
  stored in a \<open>Float_t\<close> array; the narrowing conversion is the parameter \<open>narrow\<close>.
\<close>

fun copy_events ::
  "(Double_t \<Rightarrow> Float_t) \<Rightarrow> DataSetInfo \<Rightarrow> nat \<Rightarrow> Event list \<Rightarrow> nat \<Rightarrow> matrix \<Rightarrow> xgboost_data
     \<Rightarrow> error + (matrix \<times> xgboost_data)" where
  "copy_events narrow dataset_info n_vars [] i m data = Inr (m, data)"
| "copy_events narrow dataset_info n_vars (event # events) i m data =
     (case fill_values event i 0 n_vars m of
        Inl e \<Rightarrow> Inl e
      | Inr m' \<Rightarrow>
          (case (if IsSignal dataset_info event
                 then (case store (labels data) i 0 of
                         Inl e \<Rightarrow> Inl e
                       | Inr ls \<Rightarrow>
                           (case store (weights data) i (narrow (GetOriginalWeight event)) of
                              Inl e \<Rightarrow> Inl e
                            | Inr ws \<Rightarrow> Inr (data\<lparr>labels := ls, weights := ws\<rparr>)))
                 else (case store (labels data) i 1 of
                         Inl e \<Rightarrow> Inl e
                       | Inr ls \<Rightarrow>
                           (case store (weights data) i (narrow (GetOriginalWeight event)) of
                              Inl e \<Rightarrow> Inl e
                            | Inr ws \<Rightarrow> Inr (data\<lparr>labels := ls, weights := ws\<rparr>)))) of
             Inl e \<Rightarrow> Inl e
           | Inr data' \<Rightarrow> copy_events narrow dataset_info n_vars events (Suc i) m' data'))"

text \<open>The recorded counts of the selected partition, or the error for any other selector.\<close>

definition partition_counts :: "DataSet \<Rightarrow> ETreeType \<Rightarrow> error + (nat \<times> nat)" where
  "partition_counts dataset type =
     (if type = kTesting then Inr (GetNEvtSigTest dataset, GetNEvtBkgdTest dataset)
      else if type = kTraining then Inr (GetNEvtSigTrain dataset, GetNEvtBkgdTrain dataset)
      else Inl (runtime_error ''Unexpected treeType (must be either kTesting or kTraining).''))"

definition ROOTToXGBoost_DataSetInfo ::
  "xgb_lib \<Rightarrow> string \<Rightarrow> (Double_t \<Rightarrow> Float_t) \<Rightarrow> DataSetInfo \<Rightarrow> ETreeType
     \<Rightarrow> history \<Rightarrow> (error + xgboost_data) \<times> history" where
  "ROOTToXGBoost_DataSetInfo lib path narrow dataset_info type tr =
     (let dataset = GetDataSet dataset_info;
          n_vars = GetNVariables dataset
      in case partition_counts dataset type of
           Inl e \<Rightarrow> (Inl e, tr)
         | Inr (ns, nb) \<Rightarrow>
             (case copy_events narrow dataset_info n_vars (GetEventCollection dataset type) 0
                     (replicate (ns + nb) (replicate n_vars None)) (new_xgboost_data ns nb) of
                Inl e \<Rightarrow> (Inl e, tr)
              | Inr (sb_mat, data) \<Rightarrow>
                  populate_dmatrix lib path
                    131 (''XGDMatrixCreateFromMat((Float_t*) sb_mat, n_sig + n_bgd, n_vars, 0, ''
                         @ ''&((data->sb_dmats)[0]))'')
                    132 (''XGDMatrixSetFloatInfo((data->sb_dmats)[0], '' @ [CHR 0x22] @ ''label''
                         @ [CHR 0x22] @ '', data->labels, n_sig + n_bgd)'')
                    sb_mat (ns + nb) n_vars data tr))"

section \<open>The trainer and the release method\<close>

text \<open>The iteration over the options: each pair is set on the booster, in the order of the list.\<close>

fun set_params ::
  "xgb_lib \<Rightarrow> string \<Rightarrow> handle \<Rightarrow> (string \<times> string) list \<Rightarrow> history \<Rightarrow> (error + unit) \<times> history" where
  "set_params lib path booster [] tr = (Inr (), tr)"
| "set_params lib path booster (opt # opts) tr =
     (case safe_xgboost lib path 143 ''XGBoosterSetParam(booster, opt.first, opt.second)''
             (XGBoosterSetParam booster (fst opt) (snd opt)) tr of
        (r, tr') \<Rightarrow>
          (case r of
             Inl e \<Rightarrow> (Inl e, tr')
           | Inr u \<Rightarrow> set_params lib path booster opts tr'))"

text \<open>
  The training iteration. The counter and the bound are \<open>UInt_t\<close>, 32 bits without sign; the
  library takes the iteration number as an \<open>int\<close>, so what it receives is the counter
  read as a signed number.
\<close>

function update_iters ::
  "xgb_lib \<Rightarrow> string \<Rightarrow> handle \<Rightarrow> handle option \<Rightarrow> 32 word \<Rightarrow> 32 word \<Rightarrow> history
     \<Rightarrow> (error + unit) \<times> history" where
  "update_iters lib path booster dmat iter n_iter tr =
     (if iter < n_iter then
        (case safe_xgboost lib path 148
                ''XGBoosterUpdateOneIter(booster, iter, (data->sb_dmats)[0])''
                (XGBoosterUpdateOneIter booster (sint iter) dmat) tr of
           (r, tr') \<Rightarrow>
             (case r of
                Inl e \<Rightarrow> (Inl e, tr')
              | Inr u \<Rightarrow> update_iters lib path booster dmat (iter + 1) n_iter tr'))
      else (Inr (), tr))"
  by pat_completeness auto
termination
  by (relation "measure (\<lambda>(lib, path, booster, dmat, iter, n_iter, tr). unat n_iter - unat iter)")
    (auto simp: word_less_nat_alt, unat_arith)

declare update_iters.simps [simp del]

definition xgboost_train ::
  "xgb_lib \<Rightarrow> string \<Rightarrow> xgboost_data \<Rightarrow> (string \<times> string) list \<Rightarrow> 32 word \<Rightarrow> history
     \<Rightarrow> (error + handle) \<times> history" where
  "xgboost_train lib path data opts n_iter tr =
     (let create = XGBoosterCreate [sb_dmats data] 1
      in case safe_xgboost lib path 140 ''XGBoosterCreate(data->sb_dmats, 1, &booster)'' create tr of
           (r1, tr1) \<Rightarrow>
             (case r1 of
                Inl e \<Rightarrow> (Inl e, tr1)
              | Inr u \<Rightarrow>
                  (let booster = out_handle lib tr create
                   in case set_params lib path booster opts tr1 of
                        (r2, tr2) \<Rightarrow>
                          (case r2 of
                             Inl e \<Rightarrow> (Inl e, tr2)
                           | Inr u \<Rightarrow>
                               (case update_iters lib path booster (sb_dmats data) 0 n_iter tr2 of
                                  (r3, tr3) \<Rightarrow>
                                    (case r3 of
                                       Inl e \<Rightarrow> (Inl e, tr3)
                                     | Inr u \<Rightarrow> (Inr booster, tr3)))))))"

text \<open>The method \<open>free\<close> of the bundle; it lives in the header, which has its own file name.\<close>

definition free :: "xgb_lib \<Rightarrow> string \<Rightarrow> xgboost_data \<Rightarrow> history \<Rightarrow> (error + unit) \<times> history" where
  "free lib path data tr =
     safe_xgboost lib path 52 ''XGDMatrixFree(sb_dmats[0])'' (XGDMatrixFree (sb_dmats data)) tr"

section \<open>Notions used to state the properties\<close>

text \<open>
  A call site is a use of \<open>safe_xgboost\<close>: its line, the text of its argument and the
  call it makes. \<open>run_checked\<close> performs the sites of a list in order, each through
  \<open>safe_xgboost\<close>, and stops at the first error; \<open>returning\<close> turns a completed sequence
  into the value the operation returns.
\<close>

type_synonym site = "nat \<times> string \<times> xgb_call"

fun run_checked :: "xgb_lib \<Rightarrow> string \<Rightarrow> site list \<Rightarrow> history \<Rightarrow> (error + unit) \<times> history" where
  "run_checked lib path [] tr = (Inr (), tr)"
| "run_checked lib path (s # rest) tr =
     (case safe_xgboost lib path (fst s) (fst (snd s)) (snd (snd s)) tr of
        (r, tr') \<Rightarrow>
          (case r of
             Inl e \<Rightarrow> (Inl e, tr')
           | Inr u \<Rightarrow> run_checked lib path rest tr'))"

definition then_checked ::
  "(error + unit) \<times> history \<Rightarrow> (history \<Rightarrow> (error + 'a) \<times> history) \<Rightarrow> (error + 'a) \<times> history" where
  "then_checked out f = (case out of (r, tr') \<Rightarrow> (case r of Inl e \<Rightarrow> (Inl e, tr') | Inr u \<Rightarrow> f tr'))"

definition returning :: "'a \<Rightarrow> (error + unit) \<times> history \<Rightarrow> (error + 'a) \<times> history" where
  "returning v out = (case out of (r, tr') \<Rightarrow> (case r of Inl e \<Rightarrow> (Inl e, tr') | Inr u \<Rightarrow> (Inr v, tr')))"

abbreviation calls :: "site list \<Rightarrow> xgb_call list" where
  "calls sites \<equiv> map (\<lambda>s. snd (snd s)) sites"

text \<open>
  \<open>all_ok lib tr cs\<close>: made in this order after the calls \<open>tr\<close>, every call of \<open>cs\<close>
  returns status zero.
\<close>

fun all_ok :: "xgb_lib \<Rightarrow> history \<Rightarrow> xgb_call list \<Rightarrow> bool" where
  "all_ok lib tr [] = True"
| "all_ok lib tr (c # cs) = (status lib tr c = 0 \<and> all_ok lib (tr @ [c]) cs)"

text \<open>The name of the library function a call belongs to.\<close>

fun api_name :: "xgb_call \<Rightarrow> string" where
  "api_name (XGDMatrixCreateFromMat buf nrow ncol missing) = ''XGDMatrixCreateFromMat''"
| "api_name (XGDMatrixSetFloatInfo h field arr len) = ''XGDMatrixSetFloatInfo''"
| "api_name (XGDMatrixFree h) = ''XGDMatrixFree''"
| "api_name (XGBoosterCreate hs len) = ''XGBoosterCreate''"
| "api_name (XGBoosterSetParam h name val) = ''XGBoosterSetParam''"
| "api_name (XGBoosterUpdateOneIter h iter dtrain) = ''XGBoosterUpdateOneIter''"

text \<open>
  \<open>status_checked lib tr out\<close>: the operation that started after the calls \<open>tr\<close> and
  ended with \<open>out\<close> has made some calls \<open>cs\<close>, and whichever of them returned a status
  other than zero was the last one made, the outcome being a \<open>runtime_error\<close> whose
  message holds the text of that call, which begins with the name of the library function
  and an opening parenthesis, and ends with the library's last error.
\<close>

definition status_checked :: "xgb_lib \<Rightarrow> history \<Rightarrow> (error + 'a) \<times> history \<Rightarrow> bool" where
  "status_checked lib tr out =
     (\<exists>cs. snd out = tr @ cs \<and>
        (\<forall>i<length cs. status lib (tr @ take i cs) (cs ! i) \<noteq> 0 \<longrightarrow>
           Suc i = length cs \<and>
           (\<exists>pre text. prefix (api_name (cs ! i) @ ''('') text \<and>
              fst out = Inl (runtime_error (pre @ '': error in '' @ text @ '':''
                                             @ XGBGetLastError lib (snd out))))))"

text \<open>
  The row of the feature matrix that belongs to an entry, and row \<open>i\<close> of a row-major
  buffer with \<open>ncol\<close> columns, which is how the library reads the buffer it is given.
\<close>

definition event_row :: "string list \<Rightarrow> (string \<Rightarrow> Float_t) \<Rightarrow> array" where
  "event_row variables e = map (\<lambda>v. Some (e v)) variables"

definition matrix_row :: "array \<Rightarrow> nat \<Rightarrow> nat \<Rightarrow> array" where
  "matrix_row buf ncol i = take ncol (drop (i * ncol) buf)"


definition label_of :: "DataSetInfo \<Rightarrow> Event \<Rightarrow> Float_t" where
  "label_of dataset_info event = (if IsSignal dataset_info event then 0 else 1)"

text \<open>
  The calls of a training run as the specification words them: the booster is created on
  the one matrix of the bundle, every option is set in the order of the list, and \<open>n\<close>
  update iterations numbered from 0 follow, each against the same matrix.
  \<open>is_update\<close> recognises an update iteration.
\<close>

definition train_plan ::
  "handle \<Rightarrow> xgboost_data \<Rightarrow> (string \<times> string) list \<Rightarrow> nat \<Rightarrow> xgb_call list" where
  "train_plan booster data opts n =
     XGBoosterCreate [sb_dmats data] 1
     # map (\<lambda>opt. XGBoosterSetParam booster (fst opt) (snd opt)) opts
     @ map (\<lambda>iter. XGBoosterUpdateOneIter booster (sint (word_of_nat iter :: 32 word)) (sb_dmats data))
         [0..<n]"

fun is_update :: "xgb_call \<Rightarrow> bool" where
  "is_update (XGBoosterUpdateOneIter booster iter dtrain) = True"
| "is_update call = False"

section \<open>Example inputs\<close>

text \<open>
  A library in which every call succeeds and handles are numbered by the calls made
  before, and small trees with the branches \<open>x\<close> and \<open>y\<close>.
\<close>

definition quiet_lib :: xgb_lib where
  "quiet_lib = \<lparr> status = (\<lambda>tr c. 0), out_handle = (\<lambda>tr c. length tr), XGBGetLastError = (\<lambda>tr. []) \<rparr>"

definition two_signal_events :: TTree where
  "two_signal_events =
     \<lparr> branches = [''x'', ''y''],
       entries = [(\<lambda>v. if v = ''x'' then 1 else 2), (\<lambda>v. if v = ''x'' then 3 else 4)] \<rparr>"

definition one_background_event :: TTree where
  "one_background_event =
     \<lparr> branches = [''x'', ''y''], entries = [(\<lambda>v. if v = ''x'' then 5 else 6)] \<rparr>"

definition empty_tree :: TTree where
  "empty_tree = \<lparr> branches = [''x'', ''y''], entries = [] \<rparr>"

definition one_signal_event :: TTree where
  "one_signal_event = \<lparr> branches = [''x'', ''y''], entries = [(\<lambda>v. 0)] \<rparr>"

definition many_background_events :: TTree where
  "many_background_events = \<lparr> branches = [''x'', ''y''], entries = replicate 16777216 (\<lambda>v. 0) \<rparr>"

definition three_signal_events :: TTree where
  "three_signal_events = \<lparr> branches = [''x'', ''y''], entries = replicate 3 (\<lambda>v. 0) \<rparr>"

definition four_background_events :: TTree where
  "four_background_events = \<lparr> branches = [''x'', ''y''], entries = replicate 4 (\<lambda>v. 0) \<rparr>"

text \<open>
  A data set whose training partition holds one signal event followed by one background
  event, a library whose second call fails, and a bundle as the adapters return it.
\<close>

definition signal_then_background :: DataSetInfo where
  "signal_then_background =
     \<lparr> GetDataSet =
         \<lparr> GetNVariables = 2,
           GetNEvtSigTest = 0, GetNEvtBkgdTest = 0, GetNEvtSigTrain = 1, GetNEvtBkgdTrain = 1,
           GetEventCollection =
             (\<lambda>type. if type = kTraining
                then [\<lparr> GetValue = (\<lambda>j. if j = 0 then 1 else 2), GetOriginalWeight = 3, GetClass = 0 \<rparr>,
                      \<lparr> GetValue = (\<lambda>j. if j = 0 then 5 else 6), GetOriginalWeight = 4, GetClass = 1 \<rparr>]
                else []) \<rparr>,
       IsSignal = (\<lambda>event. GetClass event = 0) \<rparr>"



definition failing_lib :: xgb_lib where
  "failing_lib =
     \<lparr> status = (\<lambda>tr c. if length tr = 1 then 3 else 0),
       out_handle = (\<lambda>tr c. length tr),
       XGBGetLastError = (\<lambda>tr. ''boom'') \<rparr>"

definition converted_bundle :: xgboost_data where
  "converted_bundle =
     \<lparr> sb_dmats = Some 0, weights = [Some 5, Some 5, Some 7],
       labels = [Some 0, Some 0, Some 1], n_sig = 2, n_bgd = 1 \<rparr>"

section \<open>Rounding\<close>

lemma bit_length_le: "n < 2 ^ p \<Longrightarrow> bit_length n \<le> p"
proof (induction p arbitrary: n)
  case 0
  then show ?case by (simp add: bit_length.simps)
next
  case (Suc p)
  show ?case
  proof (cases "n = 0")
    case True
    then show ?thesis by (simp add: bit_length.simps)
  next
    case False
    from Suc.prems have "n div 2 < 2 ^ p" by simp
    from Suc.IH [OF this] False show ?thesis
      by (subst bit_length.simps) simp
  qed
qed

lemma bit_length_power: "bit_length (2 ^ p) = Suc p"
  by (induction p) (simp_all add: bit_length.simps [of "2 * _"] bit_length.simps [of 1] bit_length.simps [of 0]
      bit_length.simps [of "Suc 0"])

lemma round_nearest_even_exact:
  assumes "0 < p" and "n \<le> 2 ^ p"
  shows "round_nearest_even p n = n"
proof (cases "n = 2 ^ p")
  case True
  obtain k where p: "p = Suc k" using assms(1) by (cases p) auto
  have "bit_length n - p = 1" by (simp add: True bit_length_power)
  then show ?thesis by (simp add: round_nearest_even_def True p)
next
  case False
  with assms have "n < 2 ^ p" by simp
  then have "bit_length n - p = 0" using bit_length_le [of n p] by simp
  then show ?thesis by (simp add: round_nearest_even_def)
qed

lemma one_plus_as_Float_t_exact:
  assumes "q < 2 ^ 24"
  shows "one_plus_as_Float_t q = 1 + real q"
proof -
  have "q \<le> 2 ^ 53"
    using assms by (rule less_imp_le [OF less_le_trans]) simp
  then have r1: "round_nearest_even 53 q = q"
    by (intro round_nearest_even_exact) simp_all
  have small: "Suc q \<le> 2 ^ 24" using assms by simp
  then have r3: "round_nearest_even 24 (Suc q) = Suc q"
    by (intro round_nearest_even_exact) simp_all
  have "Suc q \<le> 2 ^ 53"
    using small by (rule le_trans) simp
  then have r2: "round_nearest_even 53 (Suc q) = Suc q"
    by (intro round_nearest_even_exact) simp_all
  show ?thesis by (simp add: one_plus_as_Float_t_def r1 r2 r3)
qed

lemma one_plus_as_Float_t_at_limit: "one_plus_as_Float_t 16777216 = 16777216"
  by (simp add: one_plus_as_Float_t_def round_nearest_even_def bit_length.simps)

lemma class_weight_None:
  "class_weight None a b = Inr w \<longleftrightarrow> 0 < b \<and> w = one_plus_as_Float_t (a div b)"
  by (auto simp: class_weight_def balanced_weight_def)

lemma class_weight_Some: "class_weight (Some W) a b = Inr w \<longleftrightarrow> w = W"
  by (auto simp: class_weight_def)

lemma class_weight_Inl:
  "class_weight given a b = Inl e \<longleftrightarrow> given = None \<and> b = 0 \<and> e = division_by_zero"
  by (auto simp: class_weight_def balanced_weight_def split: option.splits)

lemma real_quotient_balances:
  assumes "0 < a" and "0 < b"
  shows "(1 + real b / real a) * real a = real a + real b"
    and "(1 + real a / real b) * real b = real a + real b"
  using assms by (simp_all add: field_simps)

section \<open>The tree-pair adapter's iterations in closed form\<close>

lemma fill_rows_closed:
  assumes "i + length xs \<le> length m" and "\<forall>r<length m. j < length (m ! r)"
  shows "fill_rows xs i j m =
           Inr (map (\<lambda>r. if i \<le> r \<and> r < i + length xs then (m ! r)[j := Some (xs ! (r - i))] else m ! r)
                  [0..<length m], i + length xs)"
  using assms
proof (induction xs arbitrary: i m)
  case Nil
  then show ?case by (auto intro!: nth_equalityI simp del: upt_Suc)
next
  case (Cons x xs)
  let ?m' = "m[i := (m ! i)[j := Some x]]"
  have i: "i < length m" using Cons.prems by simp
  have st: "store2 m i j x = Inr ?m'"
    using Cons.prems i by (simp add: store2_def)
  have wide: "\<forall>r<length ?m'. j < length (?m' ! r)"
    using Cons.prems by (simp add: nth_list_update)
  have len: "Suc i + length xs \<le> length ?m'" using Cons.prems by simp
  have "fill_rows (x # xs) i j m = fill_rows xs (Suc i) j ?m'"
    by (simp add: st)
  also have "\<dots> = Inr (map (\<lambda>r. if Suc i \<le> r \<and> r < Suc i + length xs
                                  then (?m' ! r)[j := Some (xs ! (r - Suc i))] else ?m' ! r)
                        [0..<length ?m'], Suc i + length xs)"
    by (rule Cons.IH [OF len wide])
  also have "\<dots> = Inr (map (\<lambda>r. if i \<le> r \<and> r < i + length (x # xs)
                                  then (m ! r)[j := Some ((x # xs) ! (r - i))] else m ! r)
                        [0..<length m], i + length (x # xs))"
  proof -
    have "(if Suc i \<le> r \<and> r < Suc i + length xs
            then (?m' ! r)[j := Some (xs ! (r - Suc i))] else ?m' ! r) =
          (if i \<le> r \<and> r < i + length (x # xs)
            then (m ! r)[j := Some ((x # xs) ! (r - i))] else m ! r)"
      if "r < length m" for r
      using that i by (cases "r = i") (auto simp: nth_list_update nth_Cons')
    then show ?thesis by (auto intro!: map_cong)
  qed
  finally show ?case .
qed

lemma fill_vars_step:
  assumes "var \<in> set (branches sg)" and "var \<in> set (branches bg)"
    and "length m = length (entries sg) + length (entries bg)"
    and "\<forall>r<length m. j < length (m ! r)"
  shows "fill_vars sg bg (var # vars) j m =
           fill_vars sg bg vars (Suc j)
             (map (\<lambda>r. (m ! r)[j := Some (((entries sg @ entries bg) ! r) var)]) [0..<length m])"
proof -
  let ?ns = "length (entries sg)" and ?nb = "length (entries bg)"
  let ?es = "entries sg @ entries bg"
  let ?sc = "map (\<lambda>e. e var) (entries sg)" and ?bc = "map (\<lambda>e. e var) (entries bg)"
  let ?m1 = "map (\<lambda>r. if 0 \<le> r \<and> r < 0 + length ?sc then (m ! r)[j := Some (?sc ! (r - 0))] else m ! r)
               [0..<length m]"
  let ?m2 = "map (\<lambda>r. if ?ns \<le> r \<and> r < ?ns + length ?bc then (?m1 ! r)[j := Some (?bc ! (r - ?ns))] else ?m1 ! r)
               [0..<length ?m1]"
  have ts: "Take sg var = Inr ?sc" and tb: "Take bg var = Inr ?bc"
    using assms by (simp_all add: Take_def)
  have f1: "fill_rows ?sc 0 j m = Inr (?m1, ?ns)"
    using fill_rows_closed [of 0 ?sc m j] assms by simp
  have wide1: "\<forall>r<length ?m1. j < length (?m1 ! r)"
    using assms by simp
  have f2: "fill_rows ?bc ?ns j ?m1 = Inr (?m2, ?ns + ?nb)"
    using fill_rows_closed [of ?ns ?bc ?m1 j] assms wide1 by simp
  have eq: "?m2 = map (\<lambda>r. (m ! r)[j := Some ((?es ! r) var)]) [0..<length m]"
    using assms by (auto simp: nth_append intro!: map_cong)
  have "fill_vars sg bg (var # vars) j m = fill_vars sg bg vars (Suc j) ?m2"
    by (simp only: fill_vars.simps ts tb f1 f2 sum.case prod.case)
  then show ?thesis by (simp only: eq)
qed

lemma fill_vars_closed:
  assumes "set vars \<subseteq> set (branches sg)" and "set vars \<subseteq> set (branches bg)"
    and "length m = length (entries sg) + length (entries bg)"
    and "\<forall>r<length m. length (m ! r) = j + length vars"
  shows "fill_vars sg bg vars j m =
           Inr (map (\<lambda>r. take j (m ! r) @ map (\<lambda>v. Some (((entries sg @ entries bg) ! r) v)) vars)
                  [0..<length m])"
  using assms
proof (induction vars arbitrary: j m)
  case Nil
  then show ?case by (auto intro!: nth_equalityI simp del: upt_Suc)
next
  case (Cons var vars)
  let ?es = "entries sg @ entries bg"
  let ?m2 = "map (\<lambda>r. (m ! r)[j := Some ((?es ! r) var)]) [0..<length m]"
  have "fill_vars sg bg (var # vars) j m = fill_vars sg bg vars (Suc j) ?m2"
    using fill_vars_step [of var sg bg m j vars] Cons.prems by simp
  also have "\<dots> = Inr (map (\<lambda>r. take (Suc j) (?m2 ! r) @ map (\<lambda>v. Some ((?es ! r) v)) vars)
                        [0..<length ?m2])"
    using Cons.IH [of ?m2 "Suc j"] Cons.prems by simp
  also have "\<dots> = Inr (map (\<lambda>r. take j (m ! r) @ map (\<lambda>v. Some ((?es ! r) v)) (var # vars))
                        [0..<length m])"
  proof -
    have "take (Suc j) (?m2 ! r) @ map (\<lambda>v. Some ((?es ! r) v)) vars =
          take j (m ! r) @ map (\<lambda>v. Some ((?es ! r) v)) (var # vars)" if r: "r < length m" for r
    proof -
      have "j < length (m ! r)" using Cons.prems r by simp
      then have "take (Suc j) ((m ! r)[j := Some ((?es ! r) var)]) = take j (m ! r) @ [Some ((?es ! r) var)]"
        by (simp add: take_Suc_conv_app_nth)
      then show ?thesis using r by simp
    qed
    then show ?thesis by (auto intro!: map_cong)
  qed
  finally show ?case .
qed

lemma fill_vars_missing:
  assumes "\<not> set vars \<subseteq> set (branches sg) \<inter> set (branches bg)"
    and "length m = length (entries sg) + length (entries bg)"
    and "\<forall>r<length m. length (m ! r) = j + length vars"
  shows "\<exists>v\<in>set vars. fill_vars sg bg vars j m = Inl (unknown_column v)"
  using assms
proof (induction vars arbitrary: j m)
  case Nil
  then show ?case by simp
next
  case (Cons var vars)
  show ?case
  proof (cases "var \<in> set (branches sg)")
    case False
    then show ?thesis by (simp add: Take_def)
  next
    case sg: True
    show ?thesis
    proof (cases "var \<in> set (branches bg)")
      case False
      have "fill_rows (map (\<lambda>e. e var) (entries sg)) 0 j m =
              Inr (map (\<lambda>r. if 0 \<le> r \<and> r < 0 + length (map (\<lambda>e. e var) (entries sg))
                             then (m ! r)[j := Some (map (\<lambda>e. e var) (entries sg) ! (r - 0))] else m ! r)
                     [0..<length m], 0 + length (map (\<lambda>e. e var) (entries sg)))"
        by (rule fill_rows_closed) (use Cons.prems in simp_all)
      then show ?thesis using sg False by (simp add: Take_def)
    next
      case bg: True
      let ?m2 = "map (\<lambda>r. (m ! r)[j := Some (((entries sg @ entries bg) ! r) var)]) [0..<length m]"
      have step: "fill_vars sg bg (var # vars) j m = fill_vars sg bg vars (Suc j) ?m2"
        using fill_vars_step [of var sg bg m j vars] sg bg Cons.prems by simp
      have "\<exists>v\<in>set vars. fill_vars sg bg vars (Suc j) ?m2 = Inl (unknown_column v)"
        by (rule Cons.IH) (use Cons.prems sg bg in simp_all)
      then show ?thesis using step by auto
    qed
  qed
qed

lemma assign_rows_closed:
  assumes "k \<le> stop" and "stop \<le> length (labels data)" and "length (weights data) = length (labels data)"
  shows "assign_rows k stop l w data =
           Inr (data\<lparr>labels := take k (labels data) @ replicate (stop - k) (Some l) @ drop stop (labels data),
                     weights := take k (weights data) @ replicate (stop - k) (Some w) @ drop stop (weights data)\<rparr>)"
  using assms
proof (induction k stop l w data rule: assign_rows.induct)
  case (1 k stop l w data)
  show ?case
  proof (cases "k < stop")
    case False
    with "1.prems" have "k = stop" by simp
    then show ?thesis by (simp add: assign_rows.simps [of stop stop])
  next
    case True
    let ?ls = "(labels data)[k := Some l]" and ?ws = "(weights data)[k := Some w]"
    let ?d = "data\<lparr>labels := ?ls, weights := ?ws\<rparr>"
    have sl: "store (labels data) k l = Inr ?ls" and sw: "store (weights data) k w = Inr ?ws"
      using True "1.prems" by (simp_all add: store_def)
    have ih: "assign_rows (Suc k) stop l w ?d =
                Inr (?d\<lparr>labels := take (Suc k) (labels ?d) @ replicate (stop - Suc k) (Some l) @ drop stop (labels ?d),
                        weights := take (Suc k) (weights ?d) @ replicate (stop - Suc k) (Some w) @ drop stop (weights ?d)\<rparr>)"
      by (rule "1.IH" [OF True sl sw]) (use True "1.prems" in simp_all)
    have upd: "take (Suc k) (xs[k := v]) @ replicate (stop - Suc k) v @ drop stop (xs[k := v]) =
               take k xs @ replicate (stop - k) v @ drop stop xs"
      if "stop \<le> length xs" for xs :: array and v
    proof -
      have "take (Suc k) (xs[k := v]) = take k xs @ [v]"
        using that True by (simp add: take_Suc_conv_app_nth)
      moreover have "drop stop (xs[k := v]) = drop stop xs" using True by simp
      moreover have "replicate (stop - k) v = v # replicate (stop - Suc k) v"
        using True by (simp add: Suc_diff_Suc flip: replicate_Suc)
      ultimately show ?thesis by simp
    qed
    have "assign_rows k stop l w data = assign_rows (Suc k) stop l w ?d"
      using True by (subst assign_rows.simps) (simp add: sl sw)
    then show ?thesis
      using ih upd [of "labels data" "Some l"] upd [of "weights data" "Some w"] "1.prems" by simp
  qed
qed

lemma ROOTToXGBoost_rows_closed:
  assumes vars: "set variables \<subseteq> set (branches sg) \<inter> set (branches bg)"
    and sw: "class_weight sig_weight (Count bg) (Count sg) = Inr sw"
    and bw: "class_weight bgd_weight (Count sg) (Count bg) = Inr bw"
  shows "ROOTToXGBoost_rows sg bg variables sig_weight bgd_weight =
           Inr (map (event_row variables) (entries sg @ entries bg),
                \<lparr> sb_dmats = None,
                  weights = replicate (Count sg) (Some sw) @ replicate (Count bg) (Some bw),
                  labels = replicate (Count sg) (Some 0) @ replicate (Count bg) (Some 1),
                  n_sig = Count sg,
                  n_bgd = Count bg \<rparr>)"
proof -
  let ?ns = "Count sg" and ?nb = "Count bg"
  let ?m0 = "replicate (?ns + ?nb) (replicate (length variables) (None :: Float_t option))"
  have "fill_vars sg bg variables 0 ?m0 =
          Inr (map (\<lambda>r. take 0 (?m0 ! r) @ map (\<lambda>v. Some (((entries sg @ entries bg) ! r) v)) variables)
                 [0..<length ?m0])"
    by (rule fill_vars_closed) (use vars in \<open>simp_all add: Count_def\<close>)
  also have "map (\<lambda>r. take 0 (?m0 ! r) @ map (\<lambda>v. Some (((entries sg @ entries bg) ! r) v)) variables)
                 [0..<length ?m0] = map (event_row variables) (entries sg @ entries bg)"
    by (rule nth_equalityI) (simp_all add: Count_def del: map_append upt_Suc, simp add: event_row_def)
  finally have fv: "fill_vars sg bg variables 0 ?m0 =
                      Inr (map (event_row variables) (entries sg @ entries bg))" .
  let ?d0 = "new_xgboost_data ?ns ?nb"
  have a1: "assign_rows 0 ?ns 0 sw ?d0 =
              Inr (?d0\<lparr>labels := take 0 (labels ?d0) @ replicate (?ns - 0) (Some 0) @ drop ?ns (labels ?d0),
                      weights := take 0 (weights ?d0) @ replicate (?ns - 0) (Some sw) @ drop ?ns (weights ?d0)\<rparr>)"
    by (rule assign_rows_closed) (simp_all add: new_xgboost_data_def)
  let ?d1 = "\<lparr> sb_dmats = None,
               weights = replicate ?ns (Some sw) @ replicate ?nb None,
               labels = replicate ?ns (Some 0) @ replicate ?nb None,
               n_sig = ?ns, n_bgd = ?nb \<rparr>"
  have a1': "assign_rows 0 ?ns 0 sw ?d0 = Inr ?d1"
    unfolding a1 by (simp add: new_xgboost_data_def)
  have a2: "assign_rows ?ns (?ns + ?nb) 1 bw ?d1 =
              Inr (?d1\<lparr>labels := take ?ns (labels ?d1) @ replicate (?ns + ?nb - ?ns) (Some 1)
                                   @ drop (?ns + ?nb) (labels ?d1),
                      weights := take ?ns (weights ?d1) @ replicate (?ns + ?nb - ?ns) (Some bw)
                                   @ drop (?ns + ?nb) (weights ?d1)\<rparr>)"
    by (rule assign_rows_closed) simp_all
  have a2': "assign_rows ?ns (?ns + ?nb) 1 bw ?d1 =
               Inr \<lparr> sb_dmats = None,
                     weights = replicate ?ns (Some sw) @ replicate ?nb (Some bw),
                     labels = replicate ?ns (Some 0) @ replicate ?nb (Some 1),
                     n_sig = ?ns, n_bgd = ?nb \<rparr>"
    unfolding a2 by simp
  show ?thesis
    by (simp add: ROOTToXGBoost_rows_def Let_def fv sw bw a1' a2')
qed

lemma ROOTToXGBoost_rows_unknown_column:
  assumes "\<not> set variables \<subseteq> set (branches sg) \<inter> set (branches bg)"
  shows "\<exists>v\<in>set variables. ROOTToXGBoost_rows sg bg variables sig_weight bgd_weight = Inl (unknown_column v)"
proof -
  have "\<exists>v\<in>set variables.
          fill_vars sg bg variables 0
            (replicate (Count sg + Count bg) (replicate (length variables) None)) = Inl (unknown_column v)"
    by (rule fill_vars_missing) (use assms in \<open>simp_all add: Count_def\<close>)
  then show ?thesis by (auto simp: ROOTToXGBoost_rows_def)
qed

lemma class_weight_cases:
  "class_weight given a b = Inl division_by_zero \<and> given = None \<and> b = 0
   \<or> (\<exists>w. class_weight given a b = Inr w)"
  by (auto simp: class_weight_def balanced_weight_def split: option.splits)

lemma ROOTToXGBoost_rows_division:
  assumes vars: "set variables \<subseteq> set (branches sg) \<inter> set (branches bg)"
    and "class_weight sig_weight (Count bg) (Count sg) = Inl e
           \<or> class_weight bgd_weight (Count sg) (Count bg) = Inl e"
  shows "ROOTToXGBoost_rows sg bg variables sig_weight bgd_weight = Inl division_by_zero"
proof -
  let ?ns = "Count sg" and ?nb = "Count bg"
  let ?m0 = "replicate (?ns + ?nb) (replicate (length variables) (None :: Float_t option))"
  have fv: "\<exists>m. fill_vars sg bg variables 0 ?m0 = Inr m"
    using fill_vars_closed [of variables sg bg ?m0 0] vars by (simp add: Count_def)
  then obtain m where fv: "fill_vars sg bg variables 0 ?m0 = Inr m" by blast
  show ?thesis
  proof (cases "class_weight sig_weight ?nb ?ns")
    case (Inl e1)
    then have "e1 = division_by_zero" using class_weight_cases [of sig_weight ?nb ?ns] by auto
    then show ?thesis using Inl unfolding ROOTToXGBoost_rows_def Let_def fv by simp
  next
    case (Inr sw)
    with assms(2) have b: "class_weight bgd_weight ?ns ?nb = Inl e" by auto
    then have bz: "class_weight bgd_weight ?ns ?nb = Inl division_by_zero"
      using class_weight_cases [of bgd_weight ?ns ?nb] by auto
    have "\<exists>d. assign_rows 0 ?ns 0 sw (new_xgboost_data ?ns ?nb) = Inr d"
      using assign_rows_closed [of 0 ?ns "new_xgboost_data ?ns ?nb" 0 sw]
      by (simp add: new_xgboost_data_def)
    then obtain d where a1: "assign_rows 0 ?ns 0 sw (new_xgboost_data ?ns ?nb) = Inr d" by blast
    show ?thesis by (simp add: ROOTToXGBoost_rows_def Let_def fv Inr a1 bz)
  qed
qed

lemma matrix_row_concat:
  assumes "\<forall>r\<in>set rows. length r = n" and "i < length rows"
  shows "matrix_row (concat rows) n i = rows ! i"
  using assms
proof (induction rows arbitrary: i)
  case Nil
  then show ?case by simp
next
  case (Cons r rows)
  show ?case
  proof (cases i)
    case 0
    then show ?thesis using Cons.prems by (simp add: matrix_row_def)
  next
    case (Suc k)
    then have "matrix_row (concat (r # rows)) n i = matrix_row (concat rows) n k"
      using Cons.prems by (simp add: matrix_row_def)
    then show ?thesis using Cons.IH [of k] Cons.prems Suc by simp
  qed
qed

section \<open>The mixed-dataset adapter's iterations in closed form\<close>



lemma copy_events_Cons:
  "copy_events narrow dataset_info n_vars (e # evs) i m data =
     (case fill_values e i 0 n_vars m of
        Inl x \<Rightarrow> Inl x
      | Inr m' \<Rightarrow>
          (case store (labels data) i (label_of dataset_info e) of
             Inl x \<Rightarrow> Inl x
           | Inr ls \<Rightarrow>
               (case store (weights data) i (narrow (GetOriginalWeight e)) of
                  Inl x \<Rightarrow> Inl x
                | Inr ws \<Rightarrow>
                    copy_events narrow dataset_info n_vars evs (Suc i) m'
                      (data\<lparr>labels := ls, weights := ws\<rparr>))))"
  by (cases "IsSignal dataset_info e") (simp_all add: label_of_def split: sum.splits)



lemma copy_events_weights_irrelevant:
  assumes "copy_events narrow dataset_info n_vars evs i m data = Inr (m', d')"
    and "length (weights data2) = length (weights data)"
    and "data2\<lparr>weights := weights data\<rparr> = data"
  shows "\<exists>d2'. copy_events narrow' dataset_info n_vars evs i m data2 = Inr (m', d2')
               \<and> length (weights d2') = length (weights d')
               \<and> d2'\<lparr>weights := weights d'\<rparr> = d'"
  using assms
proof (induction evs arbitrary: i m data data2)
  case Nil
  then show ?case by auto
next
  case (Cons e evs)
  note run = Cons.prems(1) [unfolded copy_events_Cons]
  from run obtain m1 where fv: "fill_values e i 0 n_vars m = Inr m1"
    by (auto split: sum.splits)
  from run fv obtain ls ws where
    sl: "store (labels data) i (label_of dataset_info e) = Inr ls"
    and sw: "store (weights data) i (narrow (GetOriginalWeight e)) = Inr ws"
    and rest: "copy_events narrow dataset_info n_vars evs (Suc i) m1 (data\<lparr>labels := ls, weights := ws\<rparr>)
                 = Inr (m', d')"
    by (auto split: sum.splits)
  have lab: "labels data2 = labels data"
    using Cons.prems(3) by (metis xgboost_data.select_convs(3) xgboost_data.surjective xgboost_data.update_convs(2))
  from sw have iw: "i < length (weights data)" by (auto simp: store_def split: if_splits)
  let ?ws2 = "(weights data2)[i := Some (narrow' (GetOriginalWeight e))]"
  have sw2: "store (weights data2) i (narrow' (GetOriginalWeight e)) = Inr ?ws2"
    using iw Cons.prems(2) by (simp add: store_def)
  have ws: "ws = (weights data)[i := Some (narrow (GetOriginalWeight e))]"
    using sw by (auto simp: store_def split: if_splits)
  have "\<exists>d2'. copy_events narrow' dataset_info n_vars evs (Suc i) m1 (data2\<lparr>labels := ls, weights := ?ws2\<rparr>)
                 = Inr (m', d2')
               \<and> length (weights d2') = length (weights d')
               \<and> d2'\<lparr>weights := weights d'\<rparr> = d'"
  proof (rule Cons.IH [OF rest])
    show "length (weights (data2\<lparr>labels := ls, weights := ?ws2\<rparr>))
            = length (weights (data\<lparr>labels := ls, weights := ws\<rparr>))"
      using Cons.prems(2) ws by simp
    show "data2\<lparr>labels := ls, weights := ?ws2\<rparr>
            \<lparr>weights := weights (data\<lparr>labels := ls, weights := ws\<rparr>)\<rparr>
          = data\<lparr>labels := ls, weights := ws\<rparr>"
      using Cons.prems(3) by (cases data, cases data2) simp
  qed
  moreover have "copy_events narrow' dataset_info n_vars (e # evs) i m data2 =
                 copy_events narrow' dataset_info n_vars evs (Suc i) m1 (data2\<lparr>labels := ls, weights := ?ws2\<rparr>)"
    by (simp only: copy_events_Cons fv sl sw2 lab sum.case)
  ultimately show ?case by simp
qed




section \<open>Sequences of checked calls\<close>

lemma safe_xgboost_ok:
  "status lib tr c = 0 \<Longrightarrow> safe_xgboost lib path line text c tr = (Inr (), tr @ [c])"
  by (simp add: safe_xgboost_def)

lemma safe_xgboost_failure:
  "status lib tr c \<noteq> 0 \<Longrightarrow>
     safe_xgboost lib path line text c tr =
       (Inl (runtime_error (path @ '':'' @ to_string line @ '': error in '' @ text @ '':''
                              @ XGBGetLastError lib (tr @ [c]))), tr @ [c])"
  by (simp add: safe_xgboost_def Let_def)

lemma run_checked_append:
  "run_checked lib path (xs @ ys) tr = then_checked (run_checked lib path xs tr) (run_checked lib path ys)"
  by (induction xs arbitrary: tr) (auto simp: then_checked_def split: prod.splits sum.splits)

lemma all_ok_nth:
  "all_ok lib tr cs \<longleftrightarrow> (\<forall>i<length cs. status lib (tr @ take i cs) (cs ! i) = 0)"
proof (induction cs arbitrary: tr)
  case Nil
  then show ?case by simp
next
  case (Cons c cs)
  have "(\<forall>i<length (c # cs). status lib (tr @ take i (c # cs)) ((c # cs) ! i) = 0) \<longleftrightarrow>
        status lib tr c = 0 \<and> (\<forall>i<length cs. status lib ((tr @ [c]) @ take i cs) (cs ! i) = 0)"
    by (auto simp: less_Suc_eq_0_disj)
  then show ?case using Cons.IH [of "tr @ [c]"] by simp
qed

lemma all_ok_append:
  "all_ok lib tr (xs @ ys) \<longleftrightarrow> all_ok lib tr xs \<and> all_ok lib (tr @ xs) ys"
  by (induction xs arbitrary: tr) auto

lemma run_checked_ok:
  "all_ok lib tr (calls sites) \<Longrightarrow> run_checked lib path sites tr = (Inr (), tr @ calls sites)"
  by (induction sites arbitrary: tr) (auto simp: safe_xgboost_ok)

lemma run_checked_failure:
  assumes "\<not> all_ok lib tr (calls sites)"
  shows "\<exists>pre s post. sites = pre @ s # post \<and> all_ok lib tr (calls pre) \<and>
           status lib (tr @ calls pre) (snd (snd s)) \<noteq> 0 \<and>
           run_checked lib path sites tr =
             (Inl (runtime_error (path @ '':'' @ to_string (fst s) @ '': error in '' @ fst (snd s) @ '':''
                                    @ XGBGetLastError lib (tr @ calls pre @ [snd (snd s)]))),
              tr @ calls pre @ [snd (snd s)])"
  using assms
proof (induction sites arbitrary: tr)
  case Nil
  then show ?case by simp
next
  case (Cons s sites)
  show ?case
  proof (cases "status lib tr (snd (snd s)) = 0")
    case False
    then have "run_checked lib path (s # sites) tr =
                 (Inl (runtime_error (path @ '':'' @ to_string (fst s) @ '': error in '' @ fst (snd s) @ '':''
                                        @ XGBGetLastError lib (tr @ [snd (snd s)]))),
                  tr @ [snd (snd s)])"
      by (simp add: safe_xgboost_failure)
    with False show ?thesis by (intro exI [of _ "[]"] exI [of _ s] exI [of _ sites]) simp
  next
    case True
    with Cons.prems have "\<not> all_ok lib (tr @ [snd (snd s)]) (calls sites)" by simp
    from Cons.IH [OF this] obtain pre s' post where
      split: "sites = pre @ s' # post" and ok: "all_ok lib (tr @ [snd (snd s)]) (calls pre)"
      and bad: "status lib ((tr @ [snd (snd s)]) @ calls pre) (snd (snd s')) \<noteq> 0"
      and run: "run_checked lib path sites (tr @ [snd (snd s)]) =
                  (Inl (runtime_error (path @ '':'' @ to_string (fst s') @ '': error in '' @ fst (snd s') @ '':''
                                         @ XGBGetLastError lib ((tr @ [snd (snd s)]) @ calls pre @ [snd (snd s')]))),
                   (tr @ [snd (snd s)]) @ calls pre @ [snd (snd s')])"
      by blast
    have "run_checked lib path (s # sites) tr = run_checked lib path sites (tr @ [snd (snd s)])"
      using True by (simp add: safe_xgboost_ok)
    with split ok bad run True show ?thesis
      by (intro exI [of _ "s # pre"] exI [of _ s'] exI [of _ post]) simp
  qed
qed

lemma returning_ok:
  "all_ok lib tr (calls sites) \<Longrightarrow>
     returning v (run_checked lib path sites tr) = (Inr v, tr @ calls sites)"
  by (simp add: run_checked_ok returning_def)

lemma returning_Inr:
  assumes "returning v (run_checked lib path sites tr) = (Inr d, tr')"
  shows "d = v \<and> all_ok lib tr (calls sites) \<and> tr' = tr @ calls sites"
proof (cases "all_ok lib tr (calls sites)")
  case True
  from run_checked_ok [OF this, of path] assms show ?thesis
    using True by (simp add: returning_def)
next
  case False
  from run_checked_failure [OF this, of path] assms show ?thesis
    by (auto simp: returning_def)
qed

lemma returning_cases:
  "returning v (run_checked lib path sites tr) = (Inr v, tr @ calls sites)
   \<or> (\<exists>m tr'. returning v (run_checked lib path sites tr) = (Inl (runtime_error m), tr'))"
proof (cases "all_ok lib tr (calls sites)")
  case True
  then show ?thesis by (simp add: returning_ok)
next
  case False
  from run_checked_failure [OF this, of path] show ?thesis
    by (auto simp: returning_def)
qed

lemma status_checked_pure: "status_checked lib tr (res, tr)"
  by (simp add: status_checked_def)

lemma status_checked_run:
  assumes wf: "\<forall>s\<in>set sites. prefix (api_name (snd (snd s)) @ ''('') (fst (snd s))"
  shows "status_checked lib tr (returning v (run_checked lib path sites tr))"
proof (cases "all_ok lib tr (calls sites)")
  case True
  then have run: "run_checked lib path sites tr = (Inr (), tr @ calls sites)"
    by (rule run_checked_ok)
  from True have "\<forall>i<length (calls sites). status lib (tr @ take i (calls sites)) (calls sites ! i) = 0"
    by (simp only: all_ok_nth)
  then show ?thesis
    unfolding status_checked_def run returning_def
    by (intro exI [of _ "calls sites"]) simp
next
  case False
  from run_checked_failure [OF this, of path] obtain pre s post where
    split: "sites = pre @ s # post" and ok: "all_ok lib tr (calls pre)"
    and run: "run_checked lib path sites tr =
                (Inl (runtime_error (path @ '':'' @ to_string (fst s) @ '': error in '' @ fst (snd s) @ '':''
                                       @ XGBGetLastError lib (tr @ calls pre @ [snd (snd s)]))),
                 tr @ calls pre @ [snd (snd s)])"
    by blast
  let ?cs = "calls pre @ [snd (snd s)]"
  have pre0: "status lib (tr @ take i ?cs) (?cs ! i) = 0" if "i < length pre" for i
  proof -
    from ok have "\<forall>i<length (calls pre). status lib (tr @ take i (calls pre)) (calls pre ! i) = 0"
      by (simp only: all_ok_nth)
    with that have "status lib (tr @ take i (calls pre)) (calls pre ! i) = 0" by simp
    with that show ?thesis by (simp add: nth_append)
  qed
  have starts: "prefix (api_name (snd (snd s)) @ ''('') (fst (snd s))"
    using wf split by simp
  show ?thesis
    unfolding status_checked_def
  proof (intro exI [of _ ?cs] conjI allI impI)
    show "snd (returning v (run_checked lib path sites tr)) = tr @ ?cs"
      by (simp add: run returning_def)
  next
    fix i assume i: "i < length ?cs" and bad: "status lib (tr @ take i ?cs) (?cs ! i) \<noteq> 0"
    from i bad pre0 have eq: "i = length pre" by (cases "i < length pre") auto
    then show "Suc i = length ?cs" by simp
    have "?cs ! i = snd (snd s)" using eq by (simp add: nth_append)
    with starts show "\<exists>pre' text. prefix (api_name (?cs ! i) @ ''('') text \<and>
        fst (returning v (run_checked lib path sites tr)) =
          Inl (runtime_error (pre' @ '': error in '' @ text @ '':''
                 @ XGBGetLastError lib (snd (returning v (run_checked lib path sites tr)))))"
      by (intro exI [of _ "path @ '':'' @ to_string (fst s)"] exI [of _ "fst (snd s)"])
         (simp add: run returning_def)
  qed
qed

lemma returning_prefix:
  "\<exists>cs. snd (returning v (run_checked lib path sites tr)) = tr @ cs \<and> prefix cs (calls sites)"
proof (cases "all_ok lib tr (calls sites)")
  case True
  then show ?thesis by (simp add: returning_ok)
next
  case False
  from run_checked_failure [OF this, of path] obtain pre s post where
    "sites = pre @ s # post"
    and "run_checked lib path sites tr =
           (Inl (runtime_error (path @ '':'' @ to_string (fst s) @ '': error in '' @ fst (snd s) @ '':''
                                  @ XGBGetLastError lib (tr @ calls pre @ [snd (snd s)]))),
            tr @ calls pre @ [snd (snd s)])"
    by blast
  then show ?thesis
    by (intro exI [of _ "calls pre @ [snd (snd s)]"]) (simp add: returning_def)
qed

section \<open>The operations as sequences of checked calls\<close>

lemma UInt_t_next: "iter < n_iter \<Longrightarrow> unat (iter + 1) = Suc (unat iter)"
  for iter n_iter :: "32 word"
  by unat_arith

lemma set_params_run:
  "set_params lib path booster opts tr =
     run_checked lib path
       (map (\<lambda>opt. (143, ''XGBoosterSetParam(booster, opt.first, opt.second)'',
                     XGBoosterSetParam booster (fst opt) (snd opt))) opts) tr"
  by (induction opts arbitrary: tr) (auto split: prod.splits sum.splits)

lemma update_iters_run:
  "update_iters lib path booster dmat iter n_iter tr =
     run_checked lib path
       (map (\<lambda>i. (148, ''XGBoosterUpdateOneIter(booster, iter, (data->sb_dmats)[0])'',
                   XGBoosterUpdateOneIter booster (sint (word_of_nat i :: 32 word)) dmat))
          [unat iter..<unat n_iter]) tr"
proof (induction lib path booster dmat iter n_iter tr rule: update_iters.induct)
  case (1 lib path booster dmat iter n_iter tr)
  show ?case
  proof (cases "iter < n_iter")
    case False
    then have "unat n_iter \<le> unat iter" by (simp add: word_less_nat_alt)
    then show ?thesis using False by (simp add: update_iters.simps [of _ _ _ _ iter])
  next
    case True
    then have lt: "unat iter < unat n_iter" by (simp add: word_less_nat_alt)
    have nxt: "unat (iter + 1) = Suc (unat iter)" by (rule UInt_t_next [OF True])
    have upt: "[unat iter..<unat n_iter] = unat iter # [unat (iter + 1)..<unat n_iter]"
      using lt nxt by (simp add: upt_conv_Cons)
    show ?thesis
    proof -
      have w: "word_of_nat (unat iter) = iter" by simp
      show ?thesis
        apply (subst update_iters.simps)
        apply (simp only: True if_True upt list.map run_checked.simps fst_conv snd_conv w)
        apply (auto split: prod.splits sum.splits simp: "1.IH" [OF True])
        done
    qed
  qed
qed

lemma populate_dmatrix_run:
  "populate_dmatrix lib path line1 text1 line2 text2 sb_mat nrow ncol data tr =
     returning (data\<lparr>sb_dmats := Some (out_handle lib tr (XGDMatrixCreateFromMat (concat sb_mat) nrow ncol 0))\<rparr>)
       (run_checked lib path
          [(line1, text1, XGDMatrixCreateFromMat (concat sb_mat) nrow ncol 0),
           (line2, text2,
            XGDMatrixSetFloatInfo
              (Some (out_handle lib tr (XGDMatrixCreateFromMat (concat sb_mat) nrow ncol 0)))
              ''label'' (labels data) nrow)] tr)"
  by (simp add: populate_dmatrix_def returning_def Let_def split: prod.splits sum.splits)

lemma xgboost_train_run:
  "xgboost_train lib path data opts n_iter tr =
     returning (out_handle lib tr (XGBoosterCreate [sb_dmats data] 1))
       (run_checked lib path
          ((140, ''XGBoosterCreate(data->sb_dmats, 1, &booster)'', XGBoosterCreate [sb_dmats data] 1)
           # map (\<lambda>opt. (143, ''XGBoosterSetParam(booster, opt.first, opt.second)'',
                          XGBoosterSetParam (out_handle lib tr (XGBoosterCreate [sb_dmats data] 1))
                            (fst opt) (snd opt))) opts
           @ map (\<lambda>i. (148, ''XGBoosterUpdateOneIter(booster, iter, (data->sb_dmats)[0])'',
                        XGBoosterUpdateOneIter (out_handle lib tr (XGBoosterCreate [sb_dmats data] 1))
                          (sint (word_of_nat i :: 32 word)) (sb_dmats data)))
               [0..<unat n_iter]) tr)"
  unfolding xgboost_train_def Let_def set_params_run update_iters_run
  by (simp add: run_checked_append then_checked_def returning_def split: prod.splits sum.splits)

lemma free_run:
  "free lib path data tr =
     returning () (run_checked lib path [(52, ''XGDMatrixFree(sb_dmats[0])'', XGDMatrixFree (sb_dmats data))] tr)"
  by (simp add: free_def returning_def split: prod.splits sum.splits)

lemma populate_dmatrix_Inr:
  assumes "populate_dmatrix lib path line1 text1 line2 text2 sb_mat nrow ncol data tr = (Inr d, tr')"
  shows "d = data\<lparr>sb_dmats := Some (out_handle lib tr (XGDMatrixCreateFromMat (concat sb_mat) nrow ncol 0))\<rparr>
         \<and> all_ok lib tr
              [XGDMatrixCreateFromMat (concat sb_mat) nrow ncol 0,
               XGDMatrixSetFloatInfo
                 (Some (out_handle lib tr (XGDMatrixCreateFromMat (concat sb_mat) nrow ncol 0)))
                 ''label'' (labels data) nrow]
         \<and> tr' = tr @ [XGDMatrixCreateFromMat (concat sb_mat) nrow ncol 0,
                       XGDMatrixSetFloatInfo
                         (Some (out_handle lib tr (XGDMatrixCreateFromMat (concat sb_mat) nrow ncol 0)))
                         ''label'' (labels data) nrow]"
  using returning_Inr [OF assms [unfolded populate_dmatrix_run]] by simp

lemma populate_dmatrix_ok:
  assumes "all_ok lib tr
              [XGDMatrixCreateFromMat (concat sb_mat) nrow ncol 0,
               XGDMatrixSetFloatInfo
                 (Some (out_handle lib tr (XGDMatrixCreateFromMat (concat sb_mat) nrow ncol 0)))
                 ''label'' (labels data) nrow]"
  shows "populate_dmatrix lib path line1 text1 line2 text2 sb_mat nrow ncol data tr =
           (Inr (data\<lparr>sb_dmats := Some (out_handle lib tr (XGDMatrixCreateFromMat (concat sb_mat) nrow ncol 0))\<rparr>),
            tr @ [XGDMatrixCreateFromMat (concat sb_mat) nrow ncol 0,
                  XGDMatrixSetFloatInfo
                    (Some (out_handle lib tr (XGDMatrixCreateFromMat (concat sb_mat) nrow ncol 0)))
                    ''label'' (labels data) nrow])"
  unfolding populate_dmatrix_run using assms by (subst returning_ok) simp_all

lemma populate_dmatrix_cases:
  "(\<exists>d tr'. populate_dmatrix lib path line1 text1 line2 text2 sb_mat nrow ncol data tr = (Inr d, tr'))
   \<or> (\<exists>m tr'. populate_dmatrix lib path line1 text1 line2 text2 sb_mat nrow ncol data tr
                 = (Inl (runtime_error m), tr'))"
proof -
  let ?create = "XGDMatrixCreateFromMat (concat sb_mat) nrow ncol 0"
  let ?v = "data\<lparr>sb_dmats := Some (out_handle lib tr ?create)\<rparr>"
  let ?sites = "[(line1, text1, ?create),
                 (line2, text2,
                  XGDMatrixSetFloatInfo (Some (out_handle lib tr ?create)) ''label'' (labels data) nrow)]"
  from returning_cases [of ?v lib path ?sites tr] show ?thesis
    unfolding populate_dmatrix_run by (elim disjE) (intro disjI1 exI, assumption, intro disjI2, assumption)
qed

lemma populate_dmatrix_no_division:
  "fst (populate_dmatrix lib path line1 text1 line2 text2 sb_mat nrow ncol data tr) \<noteq> Inl division_by_zero"
  using populate_dmatrix_cases [of lib path line1 text1 line2 text2 sb_mat nrow ncol data tr] by auto

lemma ROOTToXGBoost_returns:
  assumes run: "ROOTToXGBoost lib path sg bg variables sig_weight bgd_weight tr = (Inr data, tr')"
  shows "\<exists>sw bw h.
           set variables \<subseteq> set (branches sg) \<inter> set (branches bg) \<and>
           class_weight sig_weight (Count bg) (Count sg) = Inr sw \<and>
           class_weight bgd_weight (Count sg) (Count bg) = Inr bw \<and>
           data = \<lparr> sb_dmats = Some h,
                    weights = replicate (Count sg) (Some sw) @ replicate (Count bg) (Some bw),
                    labels = replicate (Count sg) (Some 0) @ replicate (Count bg) (Some 1),
                    n_sig = Count sg,
                    n_bgd = Count bg \<rparr> \<and>
           tr' = tr @ [XGDMatrixCreateFromMat
                         (concat (map (event_row variables) (entries sg @ entries bg)))
                         (Count sg + Count bg) (length variables) 0,
                       XGDMatrixSetFloatInfo (Some h) ''label''
                         (replicate (Count sg) (Some 0) @ replicate (Count bg) (Some 1))
                         (Count sg + Count bg)] \<and>
           h = out_handle lib tr
                 (XGDMatrixCreateFromMat
                    (concat (map (event_row variables) (entries sg @ entries bg)))
                    (Count sg + Count bg) (length variables) 0)"
proof -
  have vars: "set variables \<subseteq> set (branches sg) \<inter> set (branches bg)"
  proof (rule ccontr)
    assume "\<not> ?thesis"
    from ROOTToXGBoost_rows_unknown_column [OF this, of sig_weight bgd_weight] run
    show False by (auto simp: ROOTToXGBoost_def)
  qed
  obtain sw where sw: "class_weight sig_weight (Count bg) (Count sg) = Inr sw"
  proof (cases "class_weight sig_weight (Count bg) (Count sg)")
    case (Inl e)
    then have "ROOTToXGBoost_rows sg bg variables sig_weight bgd_weight = Inl division_by_zero"
      using ROOTToXGBoost_rows_division [OF vars, of sig_weight e bgd_weight] by simp
    with run show ?thesis by (simp add: ROOTToXGBoost_def)
  next
    case (Inr w)
    then show ?thesis using that by simp
  qed
  obtain bw where bw: "class_weight bgd_weight (Count sg) (Count bg) = Inr bw"
  proof (cases "class_weight bgd_weight (Count sg) (Count bg)")
    case (Inl e)
    then have "ROOTToXGBoost_rows sg bg variables sig_weight bgd_weight = Inl division_by_zero"
      using ROOTToXGBoost_rows_division [OF vars, of sig_weight e bgd_weight] by simp
    with run show ?thesis by (simp add: ROOTToXGBoost_def)
  next
    case (Inr w)
    then show ?thesis using that by simp
  qed
  note rows = ROOTToXGBoost_rows_closed [OF vars sw bw]
  from run have "populate_dmatrix lib path
      71 (''XGDMatrixCreateFromMat((Float_t*) sb_mat, *n_sig + *n_bgd, n_vars, 0, ''
          @ ''&((data->sb_dmats)[0]))'')
      72 (''XGDMatrixSetFloatInfo((data->sb_dmats)[0], '' @ [CHR 0x22] @ ''label'' @ [CHR 0x22]
          @ '', data->labels, *n_sig + *n_bgd)'')
      (map (event_row variables) (entries sg @ entries bg)) (Count sg + Count bg) (length variables)
      \<lparr> sb_dmats = None,
        weights = replicate (Count sg) (Some sw) @ replicate (Count bg) (Some bw),
        labels = replicate (Count sg) (Some 0) @ replicate (Count bg) (Some 1),
        n_sig = Count sg, n_bgd = Count bg \<rparr> tr = (Inr data, tr')"
    by (simp only: ROOTToXGBoost_def rows sum.case prod.case)
  from populate_dmatrix_Inr [OF this] vars sw bw show ?thesis
    by (intro exI [of _ sw] exI [of _ bw]
        exI [of _ "out_handle lib tr
           (XGDMatrixCreateFromMat (concat (map (event_row variables) (entries sg @ entries bg)))
              (Count sg + Count bg) (length variables) 0)"]) simp
qed

lemma ROOTToXGBoost_ok:
  assumes vars: "set variables \<subseteq> set (branches sg) \<inter> set (branches bg)"
    and sw: "class_weight sig_weight (Count bg) (Count sg) = Inr sw"
    and bw: "class_weight bgd_weight (Count sg) (Count bg) = Inr bw"
    and ok: "all_ok lib tr
               [XGDMatrixCreateFromMat (concat (map (event_row variables) (entries sg @ entries bg)))
                  (Count sg + Count bg) (length variables) 0,
                XGDMatrixSetFloatInfo
                  (Some (out_handle lib tr
                     (XGDMatrixCreateFromMat (concat (map (event_row variables) (entries sg @ entries bg)))
                        (Count sg + Count bg) (length variables) 0)))
                  ''label'' (replicate (Count sg) (Some 0) @ replicate (Count bg) (Some 1))
                  (Count sg + Count bg)]"
  shows "ROOTToXGBoost lib path sg bg variables sig_weight bgd_weight tr =
           (Inr \<lparr> sb_dmats = Some (out_handle lib tr
                     (XGDMatrixCreateFromMat (concat (map (event_row variables) (entries sg @ entries bg)))
                        (Count sg + Count bg) (length variables) 0)),
                  weights = replicate (Count sg) (Some sw) @ replicate (Count bg) (Some bw),
                  labels = replicate (Count sg) (Some 0) @ replicate (Count bg) (Some 1),
                  n_sig = Count sg,
                  n_bgd = Count bg \<rparr>,
            tr @ [XGDMatrixCreateFromMat (concat (map (event_row variables) (entries sg @ entries bg)))
                    (Count sg + Count bg) (length variables) 0,
                  XGDMatrixSetFloatInfo
                    (Some (out_handle lib tr
                       (XGDMatrixCreateFromMat (concat (map (event_row variables) (entries sg @ entries bg)))
                          (Count sg + Count bg) (length variables) 0)))
                    ''label'' (replicate (Count sg) (Some 0) @ replicate (Count bg) (Some 1))
                    (Count sg + Count bg)])"
proof -
  note rows = ROOTToXGBoost_rows_closed [OF vars sw bw]
  show ?thesis
    apply (simp only: ROOTToXGBoost_def rows sum.case prod.case)
    apply (subst populate_dmatrix_ok)
    using ok apply simp
    apply simp
    done
qed

lemma ROOTToXGBoost_DataSetInfo_returns:
  assumes "ROOTToXGBoost_DataSetInfo lib path narrow dataset_info type tr = (Inr data, tr')"
  shows "\<exists>ns nb m d h.
           partition_counts (GetDataSet dataset_info) type = Inr (ns, nb)
           \<and> copy_events narrow dataset_info (GetNVariables (GetDataSet dataset_info))
                 (GetEventCollection (GetDataSet dataset_info) type) 0
                 (replicate (ns + nb) (replicate (GetNVariables (GetDataSet dataset_info)) None))
                 (new_xgboost_data ns nb) = Inr (m, d)
           \<and> data = d\<lparr>sb_dmats := Some h\<rparr>
           \<and> tr' = tr @ [XGDMatrixCreateFromMat (concat m) (ns + nb)
                           (GetNVariables (GetDataSet dataset_info)) 0,
                         XGDMatrixSetFloatInfo (Some h) ''label'' (labels d) (ns + nb)]
           \<and> h = out_handle lib tr
                   (XGDMatrixCreateFromMat (concat m) (ns + nb)
                      (GetNVariables (GetDataSet dataset_info)) 0)"
proof -
  let ?n = "GetNVariables (GetDataSet dataset_info)"
  obtain ns nb where pc: "partition_counts (GetDataSet dataset_info) type = Inr (ns, nb)"
    using assms by (cases "partition_counts (GetDataSet dataset_info) type")
      (auto simp: ROOTToXGBoost_DataSetInfo_def Let_def)
  obtain m d where ce: "copy_events narrow dataset_info ?n
                 (GetEventCollection (GetDataSet dataset_info) type) 0
                 (replicate (ns + nb) (replicate ?n None)) (new_xgboost_data ns nb) = Inr (m, d)"
    using assms pc
    by (cases "copy_events narrow dataset_info ?n
                 (GetEventCollection (GetDataSet dataset_info) type) 0
                 (replicate (ns + nb) (replicate ?n None)) (new_xgboost_data ns nb)")
       (auto simp: ROOTToXGBoost_DataSetInfo_def Let_def)
  from assms have "populate_dmatrix lib path
      131 (''XGDMatrixCreateFromMat((Float_t*) sb_mat, n_sig + n_bgd, n_vars, 0, ''
           @ ''&((data->sb_dmats)[0]))'')
      132 (''XGDMatrixSetFloatInfo((data->sb_dmats)[0], '' @ [CHR 0x22] @ ''label''
           @ [CHR 0x22] @ '', data->labels, n_sig + n_bgd)'')
      m (ns + nb) ?n d tr = (Inr data, tr')"
    by (simp only: ROOTToXGBoost_DataSetInfo_def Let_def pc ce sum.case prod.case)
  from populate_dmatrix_Inr [OF this] pc ce show ?thesis
    by (intro exI [of _ ns] exI [of _ nb] exI [of _ m] exI [of _ d]
        exI [of _ "out_handle lib tr (XGDMatrixCreateFromMat (concat m) (ns + nb) ?n 0)"]) simp
qed


lemma ROOTToXGBoost_cases:
  "(\<exists>e. ROOTToXGBoost lib path sg bg variables sig_weight bgd_weight tr = (Inl e, tr))
   \<or> (\<exists>m d. ROOTToXGBoost lib path sg bg variables sig_weight bgd_weight tr =
               populate_dmatrix lib path
                 71 (''XGDMatrixCreateFromMat((Float_t*) sb_mat, *n_sig + *n_bgd, n_vars, 0, ''
                     @ ''&((data->sb_dmats)[0]))'')
                 72 (''XGDMatrixSetFloatInfo((data->sb_dmats)[0], '' @ [CHR 0x22] @ ''label'' @ [CHR 0x22]
                     @ '', data->labels, *n_sig + *n_bgd)'')
                 m (Count sg + Count bg) (length variables) d tr)"
  by (cases "ROOTToXGBoost_rows sg bg variables sig_weight bgd_weight")
    (auto simp: ROOTToXGBoost_def)

lemma ROOTToXGBoost_DataSetInfo_cases:
  "(\<exists>e. ROOTToXGBoost_DataSetInfo lib path narrow dataset_info type tr = (Inl e, tr))
   \<or> (\<exists>m d n. ROOTToXGBoost_DataSetInfo lib path narrow dataset_info type tr =
               populate_dmatrix lib path
                 131 (''XGDMatrixCreateFromMat((Float_t*) sb_mat, n_sig + n_bgd, n_vars, 0, ''
                      @ ''&((data->sb_dmats)[0]))'')
                 132 (''XGDMatrixSetFloatInfo((data->sb_dmats)[0], '' @ [CHR 0x22] @ ''label''
                      @ [CHR 0x22] @ '', data->labels, n_sig + n_bgd)'')
                 m n (GetNVariables (GetDataSet dataset_info)) d tr)"
proof (cases "partition_counts (GetDataSet dataset_info) type")
  case (Inl e)
  then show ?thesis by (simp add: ROOTToXGBoost_DataSetInfo_def)
next
  case (Inr counts)
  obtain ns nb where counts: "counts = (ns, nb)" by (cases counts)
  show ?thesis
    by (cases "copy_events narrow dataset_info (GetNVariables (GetDataSet dataset_info))
                 (GetEventCollection (GetDataSet dataset_info) type) 0
                 (replicate (ns + nb) (replicate (GetNVariables (GetDataSet dataset_info)) None))
                 (new_xgboost_data ns nb)")
      (auto simp: ROOTToXGBoost_DataSetInfo_def Let_def Inr counts)
qed

lemma xgboost_train_plan:
  "xgboost_train lib path data opts n_iter tr =
     returning (out_handle lib tr (XGBoosterCreate [sb_dmats data] 1))
       (run_checked lib path
          ((140, ''XGBoosterCreate(data->sb_dmats, 1, &booster)'', XGBoosterCreate [sb_dmats data] 1)
           # map (\<lambda>opt. (143, ''XGBoosterSetParam(booster, opt.first, opt.second)'',
                          XGBoosterSetParam (out_handle lib tr (XGBoosterCreate [sb_dmats data] 1))
                            (fst opt) (snd opt))) opts
           @ map (\<lambda>i. (148, ''XGBoosterUpdateOneIter(booster, iter, (data->sb_dmats)[0])'',
                        XGBoosterUpdateOneIter (out_handle lib tr (XGBoosterCreate [sb_dmats data] 1))
                          (sint (word_of_nat i :: 32 word)) (sb_dmats data)))
               [0..<unat n_iter]) tr)
   \<and> calls
        ((140, ''XGBoosterCreate(data->sb_dmats, 1, &booster)'', XGBoosterCreate [sb_dmats data] 1)
           # map (\<lambda>opt. (143, ''XGBoosterSetParam(booster, opt.first, opt.second)'',
                          XGBoosterSetParam (out_handle lib tr (XGBoosterCreate [sb_dmats data] 1))
                            (fst opt) (snd opt))) opts
           @ map (\<lambda>i. (148, ''XGBoosterUpdateOneIter(booster, iter, (data->sb_dmats)[0])'',
                        XGBoosterUpdateOneIter (out_handle lib tr (XGBoosterCreate [sb_dmats data] 1))
                          (sint (word_of_nat i :: 32 word)) (sb_dmats data)))
               [0..<unat n_iter])
      = train_plan (out_handle lib tr (XGBoosterCreate [sb_dmats data] 1)) data opts (unat n_iter)"
  by (simp add: xgboost_train_run train_plan_def comp_def)

lemma updates_in_plan: "length (filter is_update (train_plan booster data opts n)) = n"
proof -
  have "filter is_update (map (\<lambda>opt. XGBoosterSetParam booster (fst opt) (snd opt)) opts) = []"
    by (induction opts) simp_all
  moreover have "filter is_update
      (map (\<lambda>iter. XGBoosterUpdateOneIter booster (sint (word_of_nat iter :: 32 word)) (sb_dmats data)) xs)
      = map (\<lambda>iter. XGBoosterUpdateOneIter booster (sint (word_of_nat iter :: 32 word)) (sb_dmats data)) xs"
    for xs by (induction xs) simp_all
  ultimately show ?thesis by (simp add: train_plan_def)
qed

lemma status_checked_populate_dmatrix:
  assumes "prefix ''XGDMatrixCreateFromMat('' text1" and "prefix ''XGDMatrixSetFloatInfo('' text2"
  shows "status_checked lib tr (populate_dmatrix lib path line1 text1 line2 text2 sb_mat nrow ncol data tr)"
  unfolding populate_dmatrix_run
  by (rule status_checked_run) (use assms in simp)

lemma status_checked_xgboost_train:
  "status_checked lib tr (xgboost_train lib path data opts n_iter tr)"
  unfolding xgboost_train_run
  by (rule status_checked_run) auto

lemma status_checked_free: "status_checked lib tr (free lib path data tr)"
  unfolding free_run
  by (rule status_checked_run) simp

lemma xgboost_train_ignores_weights:
  "xgboost_train lib path (data\<lparr>weights := ws\<rparr>) opts n_iter tr = xgboost_train lib path data opts n_iter tr"
  by (simp add: xgboost_train_run)

lemma ROOTToXGBoost_weights_irrelevant:
  assumes r1: "ROOTToXGBoost lib path sg bg variables sig_weight bgd_weight tr = (Inr data, tr')"
    and r2: "ROOTToXGBoost lib path sg bg variables sig_weight' bgd_weight' tr = (Inr data2, tr2)"
  shows "tr2 = tr' \<and> data2\<lparr>weights := weights data\<rparr> = data"
proof -
  from ROOTToXGBoost_returns [OF r1] obtain sw bw h where
    d1: "data = \<lparr> sb_dmats = Some h,
                    weights = replicate (Count sg) (Some sw) @ replicate (Count bg) (Some bw),
                    labels = replicate (Count sg) (Some 0) @ replicate (Count bg) (Some 1),
                    n_sig = Count sg, n_bgd = Count bg \<rparr>"
    and t1: "tr' = tr @ [XGDMatrixCreateFromMat
                         (concat (map (event_row variables) (entries sg @ entries bg)))
                         (Count sg + Count bg) (length variables) 0,
                       XGDMatrixSetFloatInfo (Some h) ''label''
                         (replicate (Count sg) (Some 0) @ replicate (Count bg) (Some 1))
                         (Count sg + Count bg)]"
    and h1: "h = out_handle lib tr
                 (XGDMatrixCreateFromMat
                    (concat (map (event_row variables) (entries sg @ entries bg)))
                    (Count sg + Count bg) (length variables) 0)"
    by blast
  from ROOTToXGBoost_returns [OF r2] obtain sw2 bw2 h2 where
    d2: "data2 = \<lparr> sb_dmats = Some h2,
                    weights = replicate (Count sg) (Some sw2) @ replicate (Count bg) (Some bw2),
                    labels = replicate (Count sg) (Some 0) @ replicate (Count bg) (Some 1),
                    n_sig = Count sg, n_bgd = Count bg \<rparr>"
    and t2: "tr2 = tr @ [XGDMatrixCreateFromMat
                         (concat (map (event_row variables) (entries sg @ entries bg)))
                         (Count sg + Count bg) (length variables) 0,
                       XGDMatrixSetFloatInfo (Some h2) ''label''
                         (replicate (Count sg) (Some 0) @ replicate (Count bg) (Some 1))
                         (Count sg + Count bg)]"
    and h2: "h2 = out_handle lib tr
                 (XGDMatrixCreateFromMat
                    (concat (map (event_row variables) (entries sg @ entries bg)))
                    (Count sg + Count bg) (length variables) 0)"
    by blast
  show ?thesis by (simp add: d1 d2 t1 t2 h1 h2)
qed

lemma ROOTToXGBoost_DataSetInfo_weights_irrelevant:
  assumes r1: "ROOTToXGBoost_DataSetInfo lib path narrow dataset_info type tr = (Inr data, tr')"
    and r2: "ROOTToXGBoost_DataSetInfo lib path narrow' dataset_info type tr = (Inr data2, tr2)"
  shows "tr2 = tr' \<and> data2\<lparr>weights := weights data\<rparr> = data"
proof -
  let ?n = "GetNVariables (GetDataSet dataset_info)"
  let ?evs = "GetEventCollection (GetDataSet dataset_info) type"
  from ROOTToXGBoost_DataSetInfo_returns [OF r1] obtain ns nb m d h where
    pc: "partition_counts (GetDataSet dataset_info) type = Inr (ns, nb)"
    and ce: "copy_events narrow dataset_info ?n ?evs 0
               (replicate (ns + nb) (replicate ?n None)) (new_xgboost_data ns nb) = Inr (m, d)"
    and data: "data = d\<lparr>sb_dmats := Some h\<rparr>"
    and tr': "tr' = tr @ [XGDMatrixCreateFromMat (concat m) (ns + nb) ?n 0,
                         XGDMatrixSetFloatInfo (Some h) ''label'' (labels d) (ns + nb)]"
    and h: "h = out_handle lib tr (XGDMatrixCreateFromMat (concat m) (ns + nb) ?n 0)"
    by blast
  from ROOTToXGBoost_DataSetInfo_returns [OF r2] pc obtain m2 d2 h2 where
    ce2: "copy_events narrow' dataset_info ?n ?evs 0
               (replicate (ns + nb) (replicate ?n None)) (new_xgboost_data ns nb) = Inr (m2, d2)"
    and data2: "data2 = d2\<lparr>sb_dmats := Some h2\<rparr>"
    and tr2: "tr2 = tr @ [XGDMatrixCreateFromMat (concat m2) (ns + nb) ?n 0,
                         XGDMatrixSetFloatInfo (Some h2) ''label'' (labels d2) (ns + nb)]"
    and h2: "h2 = out_handle lib tr (XGDMatrixCreateFromMat (concat m2) (ns + nb) ?n 0)"
    by auto
  from copy_events_weights_irrelevant [OF ce, of "new_xgboost_data ns nb" narrow'] ce2
  have m: "m2 = m" and d: "d2\<lparr>weights := weights d\<rparr> = d"
    by auto
  from d have lab: "labels d2 = labels d"
    by (metis xgboost_data.select_convs(3) xgboost_data.surjective xgboost_data.update_convs(2))
  have "tr2 = tr'" by (simp add: tr' tr2 m lab h h2)
  moreover have "data2\<lparr>weights := weights data\<rparr> = data"
    using d by (cases d, cases d2) (simp add: data data2 h h2 m)
  ultimately show ?thesis by simp
qed

section \<open>Runs on the example inputs\<close>

lemma example_run:
  "ROOTToXGBoost quiet_lib ''root2xgboost.cxx'' two_signal_events one_background_event
     [''y'', ''x''] None (Some 7) [] =
   (Inr \<lparr> sb_dmats = Some 0, weights = [Some 1, Some 1, Some 7],
          labels = [Some 0, Some 0, Some 1], n_sig = 2, n_bgd = 1 \<rparr>,
    [XGDMatrixCreateFromMat [Some 2, Some 1, Some 4, Some 3, Some 6, Some 5] 3 2 0,
     XGDMatrixSetFloatInfo (Some 0) ''label'' [Some 0, Some 0, Some 1] 3])"
  by code_simp

lemma all_ok_quiet_lib: "all_ok quiet_lib tr cs"
  by (induction cs arbitrary: tr) (simp_all add: quiet_lib_def)

lemma example_counts:
  "Count two_signal_events = 2" "Count one_background_event = 1" "Count empty_tree = 0"
  "Count three_signal_events = 3" "Count four_background_events = 4"
  by (simp_all add: Count_def two_signal_events_def one_background_event_def empty_tree_def
      three_signal_events_def four_background_events_def)

lemma weighted_run:
  "ROOTToXGBoost quiet_lib ''root2xgboost.cxx'' two_signal_events one_background_event
     [''y'', ''x''] (Some 5) (Some 7) [] =
   (Inr \<lparr> sb_dmats = Some 0, weights = [Some 5, Some 5, Some 7],
          labels = [Some 0, Some 0, Some 1], n_sig = 2, n_bgd = 1 \<rparr>,
    [XGDMatrixCreateFromMat [Some 2, Some 1, Some 4, Some 3, Some 6, Some 5] 3 2 0,
     XGDMatrixSetFloatInfo (Some 0) ''label'' [Some 0, Some 0, Some 1] 3])"
  by code_simp

lemma three_four_run:
  "ROOTToXGBoost quiet_lib ''root2xgboost.cxx'' three_signal_events four_background_events [''x''] None None [] =
     (Inr \<lparr> sb_dmats = Some 0,
            weights = [Some 2, Some 2, Some 2, Some 1, Some 1, Some 1, Some 1],
            labels = [Some 0, Some 0, Some 0, Some 1, Some 1, Some 1, Some 1],
            n_sig = 3, n_bgd = 4 \<rparr>,
      [XGDMatrixCreateFromMat [Some 0, Some 0, Some 0, Some 0, Some 0, Some 0, Some 0] 7 1 0,
       XGDMatrixSetFloatInfo (Some 0) ''label''
         [Some 0, Some 0, Some 0, Some 1, Some 1, Some 1, Some 1] 7])"
  by code_simp

lemma imbalanced_run:
  "fst (ROOTToXGBoost quiet_lib ''root2xgboost.cxx'' one_signal_event many_background_events
          [''x''] None None []) =
     Inr \<lparr> sb_dmats = Some 0,
           weights = Some 16777216 # replicate 16777216 (Some 1),
           labels = Some 0 # replicate 16777216 (Some 1),
           n_sig = 1, n_bgd = 16777216 \<rparr>"
proof -
  let ?create = "XGDMatrixCreateFromMat
                   (concat (map (event_row [''x''])
                              (entries one_signal_event @ entries many_background_events)))
                   (Count one_signal_event + Count many_background_events)
                   (length [''x'']) 0"
  have c: "Count one_signal_event = 1" "Count many_background_events = 16777216"
    by (simp_all add: Count_def one_signal_event_def many_background_events_def)
  have vars: "set [''x''] \<subseteq> set (branches one_signal_event) \<inter> set (branches many_background_events)"
    by (simp add: one_signal_event_def many_background_events_def)
  have sw: "class_weight None (Count many_background_events) (Count one_signal_event) = Inr 16777216"
    by (simp add: c class_weight_None one_plus_as_Float_t_at_limit)
  have "one_plus_as_Float_t 0 = 1"
    using one_plus_as_Float_t_exact [of 0] by simp
  then have bw: "class_weight None (Count one_signal_event) (Count many_background_events) = Inr 1"
    by (simp add: c class_weight_None)
  have "fst (ROOTToXGBoost quiet_lib ''root2xgboost.cxx'' one_signal_event many_background_events
               [''x''] None None []) =
          Inr \<lparr> sb_dmats = Some (out_handle quiet_lib [] ?create),
                weights = replicate (Count one_signal_event) (Some 16777216)
                          @ replicate (Count many_background_events) (Some 1),
                labels = replicate (Count one_signal_event) (Some 0)
                         @ replicate (Count many_background_events) (Some 1),
                n_sig = Count one_signal_event,
                n_bgd = Count many_background_events \<rparr>"
    by (simp only: ROOTToXGBoost_ok [OF vars sw bw all_ok_quiet_lib] fst_conv)
  then show ?thesis
    by (simp add: c quiet_lib_def)
qed





lemma train_run:
  "xgboost_train quiet_lib ''root2xgboost.cxx'' converted_bundle
     [(''max_depth'', ''3''), (''eta'', ''1'')] 2 [] =
   (Inr 0,
    [XGBoosterCreate [Some 0] 1,
     XGBoosterSetParam 0 ''max_depth'' ''3'',
     XGBoosterSetParam 0 ''eta'' ''1'',
     XGBoosterUpdateOneIter 0 0 (Some 0),
     XGBoosterUpdateOneIter 0 1 (Some 0)])"
  by code_simp

lemma failing_run:
  "ROOTToXGBoost failing_lib ''root2xgboost.cxx'' two_signal_events one_background_event
     [''y'', ''x''] (Some 5) (Some 7) [] =
   (Inl (runtime_error
          (''root2xgboost.cxx:72: error in XGDMatrixSetFloatInfo((data->sb_dmats)[0], ''
           @ [CHR 0x22] @ ''label'' @ [CHR 0x22] @ '', data->labels, *n_sig + *n_bgd):boom'')),
    [XGDMatrixCreateFromMat [Some 2, Some 1, Some 4, Some 3, Some 6, Some 5] 3 2 0,
     XGDMatrixSetFloatInfo (Some 0) ''label'' [Some 0, Some 0, Some 1] 3])"
  by code_simp

lemma failing_train_run:
  "xgboost_train failing_lib ''root2xgboost.cxx'' converted_bundle [(''max_depth'', ''3'')] 5 [] =
   (Inl (runtime_error
          ''root2xgboost.cxx:143: error in XGBoosterSetParam(booster, opt.first, opt.second):boom''),
    [XGBoosterCreate [Some 0] 1, XGBoosterSetParam 0 ''max_depth'' ''3''])"
  by code_simp

section \<open>Properties of the tree-pair adapter\<close>

text \<open>
  Claim C1. Whenever the tree-pair adapter returns a bundle, the library has been given
  exactly two calls: the creation of the matrix from a buffer whose rows
  \<open>0 .. n_sig - 1\<close> are the signal entries in order and whose rows
  \<open>n_sig .. n_sig + n_bgd - 1\<close> are the background entries in order, each row holding the
  requested variables in the requested order, and the attachment of the label array; the
  label array has \<open>n_sig + n_bgd\<close> cells, \<open>0.0\<close> at every index below \<open>n_sig\<close> and \<open>1.0\<close>
  at every index from \<open>n_sig\<close> on.
\<close>

theorem tree_pair_row_order_and_labels:
  assumes "ROOTToXGBoost lib path sg bg variables sig_weight bgd_weight tr = (Inr data, tr')"
  shows "\<exists>buf h.
           tr' = tr @ [XGDMatrixCreateFromMat buf (Count sg + Count bg) (length variables) 0,
                       XGDMatrixSetFloatInfo (Some h) ''label'' (labels data) (Count sg + Count bg)]
           \<and> sb_dmats data = Some h
           \<and> (\<forall>i<Count sg. matrix_row buf (length variables) i = event_row variables (entries sg ! i))
           \<and> (\<forall>i<Count bg. matrix_row buf (length variables) (Count sg + i)
                              = event_row variables (entries bg ! i))
           \<and> length (labels data) = Count sg + Count bg
           \<and> (\<forall>k<Count sg. labels data ! k = Some 0)
           \<and> (\<forall>k. Count sg \<le> k \<and> k < Count sg + Count bg \<longrightarrow> labels data ! k = Some 1)"
proof -
  let ?rows = "map (event_row variables) (entries sg @ entries bg)"
  let ?buf = "concat ?rows"
  from ROOTToXGBoost_returns [OF assms] obtain sw bw h where
    data: "data = \<lparr> sb_dmats = Some h,
                    weights = replicate (Count sg) (Some sw) @ replicate (Count bg) (Some bw),
                    labels = replicate (Count sg) (Some 0) @ replicate (Count bg) (Some 1),
                    n_sig = Count sg, n_bgd = Count bg \<rparr>"
    and tr': "tr' = tr @ [XGDMatrixCreateFromMat ?buf (Count sg + Count bg) (length variables) 0,
                         XGDMatrixSetFloatInfo (Some h) ''label''
                           (replicate (Count sg) (Some 0) @ replicate (Count bg) (Some 1))
                           (Count sg + Count bg)]"
    by blast
  have wide: "\<forall>r\<in>set ?rows. length r = length variables"
    by (auto simp: event_row_def)
  have row: "matrix_row ?buf (length variables) i = ?rows ! i" if "i < Count sg + Count bg" for i
    by (rule matrix_row_concat [OF wide]) (use that in \<open>simp add: Count_def\<close>)
  have sg_rows: "\<forall>i<Count sg. matrix_row ?buf (length variables) i = event_row variables (entries sg ! i)"
  proof (intro allI impI)
    fix i assume i: "i < Count sg"
    then have "?rows ! i = event_row variables (entries sg ! i)"
      by (simp add: Count_def nth_append)
    with row [of i] i show "matrix_row ?buf (length variables) i = event_row variables (entries sg ! i)"
      by simp
  qed
  have bg_rows: "\<forall>i<Count bg. matrix_row ?buf (length variables) (Count sg + i)
                              = event_row variables (entries bg ! i)"
  proof (intro allI impI)
    fix i assume i: "i < Count bg"
    then have "?rows ! (Count sg + i) = event_row variables (entries bg ! i)"
      by (simp add: Count_def nth_append)
    with row [of "Count sg + i"] i
    show "matrix_row ?buf (length variables) (Count sg + i) = event_row variables (entries bg ! i)"
      by simp
  qed
  have l0: "\<forall>k<Count sg. labels data ! k = Some 0"
    by (simp add: data nth_append)
  have l1: "\<forall>k. Count sg \<le> k \<and> k < Count sg + Count bg \<longrightarrow> labels data ! k = Some 1"
    by (auto simp: data nth_append)
  have len: "length (labels data) = Count sg + Count bg" and h: "sb_dmats data = Some h"
    by (simp_all add: data)
  have tr'': "tr' = tr @ [XGDMatrixCreateFromMat ?buf (Count sg + Count bg) (length variables) 0,
                         XGDMatrixSetFloatInfo (Some h) ''label'' (labels data) (Count sg + Count bg)]"
    using tr' by (simp add: data)
  from tr'' h sg_rows bg_rows len l0 l1 show ?thesis by blast
qed

theorem tree_pair_row_order_and_labels_witness:
  "ROOTToXGBoost quiet_lib ''root2xgboost.cxx'' two_signal_events one_background_event
     [''y'', ''x''] None (Some 7) [] =
   (Inr \<lparr> sb_dmats = Some 0, weights = [Some 1, Some 1, Some 7],
          labels = [Some 0, Some 0, Some 1], n_sig = 2, n_bgd = 1 \<rparr>,
    [XGDMatrixCreateFromMat [Some 2, Some 1, Some 4, Some 3, Some 6, Some 5] 3 2 0,
     XGDMatrixSetFloatInfo (Some 0) ''label'' [Some 0, Some 0, Some 1] 3])
   \<and> (\<exists>buf h.
         [XGDMatrixCreateFromMat [Some 2, Some 1, Some 4, Some 3, Some 6, Some 5] 3 2 0,
          XGDMatrixSetFloatInfo (Some 0) ''label'' [Some 0, Some 0, Some 1] 3]
           = [] @ [XGDMatrixCreateFromMat buf (Count two_signal_events + Count one_background_event)
                     (length [''y'', ''x'']) 0,
                   XGDMatrixSetFloatInfo (Some h) ''label''
                     (labels \<lparr> sb_dmats = Some 0, weights = [Some 1, Some 1, Some 7],
                               labels = [Some 0, Some 0, Some 1], n_sig = 2, n_bgd = 1 \<rparr>)
                     (Count two_signal_events + Count one_background_event)]
         \<and> sb_dmats \<lparr> sb_dmats = Some 0, weights = [Some 1, Some 1, Some 7],
                        labels = [Some 0, Some 0, Some 1], n_sig = 2, n_bgd = 1 \<rparr> = Some h
         \<and> (\<forall>i<Count two_signal_events.
               matrix_row buf (length [''y'', ''x'']) i
                 = event_row [''y'', ''x''] (entries two_signal_events ! i))
         \<and> (\<forall>i<Count one_background_event.
               matrix_row buf (length [''y'', ''x'']) (Count two_signal_events + i)
                 = event_row [''y'', ''x''] (entries one_background_event ! i))
         \<and> length (labels \<lparr> sb_dmats = Some 0, weights = [Some 1, Some 1, Some 7],
                               labels = [Some 0, Some 0, Some 1], n_sig = 2, n_bgd = 1 \<rparr>)
               = Count two_signal_events + Count one_background_event
         \<and> (\<forall>k<Count two_signal_events.
               labels \<lparr> sb_dmats = Some 0, weights = [Some 1, Some 1, Some 7],
                        labels = [Some 0, Some 0, Some 1], n_sig = 2, n_bgd = 1 \<rparr> ! k = Some 0)
         \<and> (\<forall>k. Count two_signal_events \<le> k
                   \<and> k < Count two_signal_events + Count one_background_event \<longrightarrow>
               labels \<lparr> sb_dmats = Some 0, weights = [Some 1, Some 1, Some 7],
                        labels = [Some 0, Some 0, Some 1], n_sig = 2, n_bgd = 1 \<rparr> ! k = Some 1))"
  using example_run tree_pair_row_order_and_labels [OF example_run] by (intro conjI)

text \<open>
  Claim C2. Whenever the tree-pair adapter returns a bundle and the signal weight argument
  is null, the signal tree is not empty and every signal row's weight is the value of
  \<open>1.0 + (n_bgd / n_sig)\<close>, the quotient being computed by the truncating integer
  division and the sum then being stored as a \<open>Float_t\<close>; for every quotient below
  \<open>2 ^ 24\<close> this is the number \<open>1 + n_bgd div n_sig\<close> itself. The same holds for the
  background rows with the two counts exchanged.
\<close>

theorem balanced_weight_of_rows:
  assumes "ROOTToXGBoost lib path sg bg variables sig_weight bgd_weight tr = (Inr data, tr')"
  shows "(sig_weight = None \<longrightarrow>
            0 < Count sg
            \<and> (\<forall>k<Count sg. weights data ! k = Some (one_plus_as_Float_t (Count bg div Count sg)))
            \<and> (Count bg div Count sg < 2 ^ 24 \<longrightarrow>
                 (\<forall>k<Count sg. weights data ! k = Some (1 + real (Count bg div Count sg)))))
       \<and> (bgd_weight = None \<longrightarrow>
            0 < Count bg
            \<and> (\<forall>k. Count sg \<le> k \<and> k < Count sg + Count bg \<longrightarrow>
                   weights data ! k = Some (one_plus_as_Float_t (Count sg div Count bg)))
            \<and> (Count sg div Count bg < 2 ^ 24 \<longrightarrow>
                 (\<forall>k. Count sg \<le> k \<and> k < Count sg + Count bg \<longrightarrow>
                    weights data ! k = Some (1 + real (Count sg div Count bg)))))"
proof -
  from ROOTToXGBoost_returns [OF assms] obtain sw bw h where
    sw: "class_weight sig_weight (Count bg) (Count sg) = Inr sw"
    and bw: "class_weight bgd_weight (Count sg) (Count bg) = Inr bw"
    and data: "data = \<lparr> sb_dmats = Some h,
                    weights = replicate (Count sg) (Some sw) @ replicate (Count bg) (Some bw),
                    labels = replicate (Count sg) (Some 0) @ replicate (Count bg) (Some 1),
                    n_sig = Count sg, n_bgd = Count bg \<rparr>"
    by blast
  have ws: "\<forall>k<Count sg. weights data ! k = Some sw"
    by (simp add: data nth_append)
  have wb: "\<forall>k. Count sg \<le> k \<and> k < Count sg + Count bg \<longrightarrow> weights data ! k = Some bw"
    by (auto simp: data nth_append)
  have "sig_weight = None \<longrightarrow>
          0 < Count sg
          \<and> (\<forall>k<Count sg. weights data ! k = Some (one_plus_as_Float_t (Count bg div Count sg)))
          \<and> (Count bg div Count sg < 2 ^ 24 \<longrightarrow>
               (\<forall>k<Count sg. weights data ! k = Some (1 + real (Count bg div Count sg))))"
    using sw ws one_plus_as_Float_t_exact [of "Count bg div Count sg"]
    by (auto simp: class_weight_None)
  moreover have "bgd_weight = None \<longrightarrow>
          0 < Count bg
          \<and> (\<forall>k. Count sg \<le> k \<and> k < Count sg + Count bg \<longrightarrow>
                 weights data ! k = Some (one_plus_as_Float_t (Count sg div Count bg)))
          \<and> (Count sg div Count bg < 2 ^ 24 \<longrightarrow>
               (\<forall>k. Count sg \<le> k \<and> k < Count sg + Count bg \<longrightarrow>
                  weights data ! k = Some (1 + real (Count sg div Count bg))))"
    using bw wb one_plus_as_Float_t_exact [of "Count sg div Count bg"]
    by (auto simp: class_weight_None)
  ultimately show ?thesis by blast
qed

theorem balanced_weight_of_rows_witness:
  "ROOTToXGBoost quiet_lib ''root2xgboost.cxx'' three_signal_events four_background_events
     [''x''] None None [] =
     (Inr \<lparr> sb_dmats = Some 0,
            weights = [Some 2, Some 2, Some 2, Some 1, Some 1, Some 1, Some 1],
            labels = [Some 0, Some 0, Some 0, Some 1, Some 1, Some 1, Some 1],
            n_sig = 3, n_bgd = 4 \<rparr>,
      [XGDMatrixCreateFromMat [Some 0, Some 0, Some 0, Some 0, Some 0, Some 0, Some 0] 7 1 0,
       XGDMatrixSetFloatInfo (Some 0) ''label''
         [Some 0, Some 0, Some 0, Some 1, Some 1, Some 1, Some 1] 7])
   \<and> (4::nat) div 3 < 2 ^ 24 \<and> (3::nat) div 4 < 2 ^ 24
   \<and> [Some 2, Some 2, Some 2, Some 1, Some 1, Some 1, Some 1] ! 0 = Some (1 + real (4 div 3))
   \<and> [Some 2, Some 2, Some 2, Some 1, Some 1, Some 1, Some 1] ! 2 = Some (1 + real (4 div 3))
   \<and> [Some 2, Some 2, Some 2, Some 1, Some 1, Some 1, Some 1] ! 3 = Some (1 + real (3 div 4))
   \<and> [Some 2, Some 2, Some 2, Some 1, Some 1, Some 1, Some 1] ! 6 = Some (1 + real (3 div 4))"
proof -
  note rows = balanced_weight_of_rows [OF three_four_run, simplified example_counts, simplified]
  from rows have "[Some 2, Some 2, Some 2, Some 1, Some 1, Some 1, Some (1::real)] ! 0
                    = Some (1 + real (4 div 3))"
    and "[Some 2, Some 2, Some 2, Some 1, Some 1, Some 1, Some (1::real)] ! 2
           = Some (1 + real (4 div 3))"
    by simp_all
  moreover from rows have "[Some 2, Some 2, Some 2, Some 1, Some 1, Some 1, Some (1::real)] ! 3
                             = Some (1 + real (3 div 4))"
    and "[Some 2, Some 2, Some 2, Some 1, Some 1, Some 1, Some (1::real)] ! 6
           = Some (1 + real (3 div 4))"
    by simp_all
  ultimately show ?thesis using three_four_run by simp
qed

text \<open>
  Where the stored sum stops being the integer: with one signal entry and 16777216
  background entries the quotient is \<open>2 ^ 24\<close>, and the signal row's weight is 16777216,
  since 16777217 is not a \<open>Float_t\<close>.
\<close>

lemma balanced_weight_rounds_at_limit:
  "fst (ROOTToXGBoost quiet_lib ''root2xgboost.cxx'' one_signal_event many_background_events
          [''x''] None None [])
     = Inr \<lparr> sb_dmats = Some 0,
             weights = Some 16777216 # replicate 16777216 (Some 1),
             labels = Some 0 # replicate 16777216 (Some 1),
             n_sig = 1, n_bgd = 16777216 \<rparr>
   \<and> Count one_signal_event = 1
   \<and> Count many_background_events = 16777216
   \<and> (Some 16777216 # replicate 16777216 (Some 1)) ! 0
        \<noteq> Some (1 + real (Count many_background_events div Count one_signal_event))"
proof -
  have "Count one_signal_event = 1" and "Count many_background_events = 16777216"
    by (simp_all add: Count_def one_signal_event_def many_background_events_def)
  then show ?thesis by (simp add: imbalanced_run)
qed

text \<open>
  Claim C3. With both trees non-empty and no weight supplied, the product of the signal
  weight with the number of signal entries and the product of the background weight with
  the number of background entries should differ by at most
  \<open>n_sig + n_bgd - 2 * min n_sig n_bgd\<close>. The adapter announces a balanced weight, and
  with the quotient of the two counts taken in the reals both products are
  \<open>n_sig + n_bgd\<close> (lemma \<open>real_quotient_balances\<close>). The source divides the two
  \<open>ULong64_t\<close> counts before the sum is widened, so the quotient is truncated: run on
  three signal and four background entries, the adapter stores the weights 2 and 1, the
  products 6 and 4 differ by 2, and the bound is 1.
\<close>

theorem balanced_weights_gap_exceeds_claimed_bound:
  "fst (ROOTToXGBoost quiet_lib ''root2xgboost.cxx'' three_signal_events four_background_events
          [''x''] None None [])
     = Inr \<lparr> sb_dmats = Some 0,
             weights = [Some 2, Some 2, Some 2, Some 1, Some 1, Some 1, Some 1],
             labels = [Some 0, Some 0, Some 0, Some 1, Some 1, Some 1, Some 1],
             n_sig = 3, n_bgd = 4 \<rparr>
   \<and> \<not> \<bar>the ([Some 2, Some 2, Some 2, Some 1, Some 1, Some 1, Some 1] ! 0)
            * real (Count three_signal_events)
          - the ([Some 2, Some 2, Some 2, Some 1, Some 1, Some 1, Some 1] ! 3)
            * real (Count four_background_events)\<bar>
        \<le> real (Count three_signal_events) + real (Count four_background_events)
          - 2 * real (min (Count three_signal_events) (Count four_background_events))"
  by (simp add: three_four_run example_counts)

text \<open>
  Claim C4. Whenever the tree-pair adapter returns a bundle, the weight array has
  \<open>n_sig + n_bgd\<close> cells, a supplied signal weight \<open>W\<close> is the weight of every signal
  row, and a supplied background weight \<open>W\<close> is the weight of every background row,
  whatever the sizes of the two classes.
\<close>

theorem supplied_weight_of_rows:
  assumes "ROOTToXGBoost lib path sg bg variables sig_weight bgd_weight tr = (Inr data, tr')"
  shows "length (weights data) = Count sg + Count bg
       \<and> (\<forall>W. sig_weight = Some W \<longrightarrow> (\<forall>k<Count sg. weights data ! k = Some W))
       \<and> (\<forall>W. bgd_weight = Some W \<longrightarrow>
              (\<forall>k. Count sg \<le> k \<and> k < Count sg + Count bg \<longrightarrow> weights data ! k = Some W))"
proof -
  from ROOTToXGBoost_returns [OF assms] obtain sw bw h where
    sw: "class_weight sig_weight (Count bg) (Count sg) = Inr sw"
    and bw: "class_weight bgd_weight (Count sg) (Count bg) = Inr bw"
    and data: "data = \<lparr> sb_dmats = Some h,
                    weights = replicate (Count sg) (Some sw) @ replicate (Count bg) (Some bw),
                    labels = replicate (Count sg) (Some 0) @ replicate (Count bg) (Some 1),
                    n_sig = Count sg, n_bgd = Count bg \<rparr>"
    by blast
  have "length (weights data) = Count sg + Count bg" by (simp add: data)
  moreover have "\<forall>W. sig_weight = Some W \<longrightarrow> (\<forall>k<Count sg. weights data ! k = Some W)"
    using sw by (auto simp: data nth_append class_weight_Some)
  moreover have "\<forall>W. bgd_weight = Some W \<longrightarrow>
      (\<forall>k. Count sg \<le> k \<and> k < Count sg + Count bg \<longrightarrow> weights data ! k = Some W)"
    using bw by (auto simp: data nth_append class_weight_Some)
  ultimately show ?thesis by blast
qed

theorem supplied_weight_of_rows_witness:
  "ROOTToXGBoost quiet_lib ''root2xgboost.cxx'' two_signal_events one_background_event
     [''y'', ''x''] (Some 5) (Some 7) [] =
   (Inr \<lparr> sb_dmats = Some 0, weights = [Some 5, Some 5, Some 7],
          labels = [Some 0, Some 0, Some 1], n_sig = 2, n_bgd = 1 \<rparr>,
    [XGDMatrixCreateFromMat [Some 2, Some 1, Some 4, Some 3, Some 6, Some 5] 3 2 0,
     XGDMatrixSetFloatInfo (Some 0) ''label'' [Some 0, Some 0, Some 1] 3])
   \<and> length [Some 5, Some 5, Some (7::real)] = 2 + 1
   \<and> [Some 5, Some 5, Some 7] ! 0 = Some (5::real)
   \<and> [Some 5, Some 5, Some 7] ! 1 = Some (5::real)
   \<and> [Some 5, Some 5, Some 7] ! 2 = Some (7::real)"
  using weighted_run supplied_weight_of_rows [OF weighted_run]
  by (simp add: example_counts)

text \<open>
  Claim C10. When every requested variable is a branch of both trees, the tree-pair
  adapter stops with a division by zero exactly when the signal weight is null and the
  signal tree is empty, or the background weight is null and the background tree is
  empty. Whenever it stops so, no library call has been made. When both trees have
  entries it never stops so.
\<close>

theorem balanced_weight_division_by_zero:
  "(set variables \<subseteq> set (branches sg) \<inter> set (branches bg) \<longrightarrow>
      (fst (ROOTToXGBoost lib path sg bg variables sig_weight bgd_weight tr) = Inl division_by_zero
         \<longleftrightarrow> sig_weight = None \<and> Count sg = 0 \<or> bgd_weight = None \<and> Count bg = 0))
   \<and> (fst (ROOTToXGBoost lib path sg bg variables sig_weight bgd_weight tr) = Inl division_by_zero \<longrightarrow>
        snd (ROOTToXGBoost lib path sg bg variables sig_weight bgd_weight tr) = tr
        \<and> (sig_weight = None \<and> Count sg = 0 \<or> bgd_weight = None \<and> Count bg = 0))
   \<and> (0 < Count sg \<and> 0 < Count bg \<longrightarrow>
        fst (ROOTToXGBoost lib path sg bg variables sig_weight bgd_weight tr) \<noteq> Inl division_by_zero)"
proof -
  let ?res = "ROOTToXGBoost lib path sg bg variables sig_weight bgd_weight tr"
  let ?zero = "sig_weight = None \<and> Count sg = 0 \<or> bgd_weight = None \<and> Count bg = 0"
  have missing: "fst ?res \<noteq> Inl division_by_zero"
    if "\<not> set variables \<subseteq> set (branches sg) \<inter> set (branches bg)"
    using ROOTToXGBoost_rows_unknown_column [OF that, of sig_weight bgd_weight]
    by (auto simp: ROOTToXGBoost_def)
  have present: "(fst ?res = Inl division_by_zero \<longleftrightarrow> ?zero)
                 \<and> (fst ?res = Inl division_by_zero \<longrightarrow> snd ?res = tr)"
    if vars: "set variables \<subseteq> set (branches sg) \<inter> set (branches bg)"
  proof (cases ?zero)
    case True
    then have "class_weight sig_weight (Count bg) (Count sg) = Inl division_by_zero
               \<or> class_weight bgd_weight (Count sg) (Count bg) = Inl division_by_zero"
      by (auto simp: class_weight_Inl)
    from ROOTToXGBoost_rows_division [OF vars this] True show ?thesis
      by (simp add: ROOTToXGBoost_def)
  next
    case False
    obtain sw where sw: "class_weight sig_weight (Count bg) (Count sg) = Inr sw"
      using False by (cases "class_weight sig_weight (Count bg) (Count sg)") (auto simp: class_weight_Inl)
    obtain bw where bw: "class_weight bgd_weight (Count sg) (Count bg) = Inr bw"
      using False by (cases "class_weight bgd_weight (Count sg) (Count bg)") (auto simp: class_weight_Inl)
    note rows = ROOTToXGBoost_rows_closed [OF vars sw bw]
    have "fst ?res \<noteq> Inl division_by_zero"
      by (simp only: ROOTToXGBoost_def rows sum.case prod.case) (rule populate_dmatrix_no_division)
    with False show ?thesis by simp
  qed
  have positive: "fst ?res \<noteq> Inl division_by_zero" if "0 < Count sg \<and> 0 < Count bg"
    using that missing present
    by (cases "set variables \<subseteq> set (branches sg) \<inter> set (branches bg)") auto
  from missing present positive show ?thesis by blast
qed

theorem balanced_weight_division_by_zero_witness:
  "set [''x''] \<subseteq> set (branches empty_tree) \<inter> set (branches one_background_event)
   \<and> Count empty_tree = 0
   \<and> fst (ROOTToXGBoost quiet_lib ''root2xgboost.cxx'' empty_tree one_background_event
            [''x''] None None []) = Inl division_by_zero
   \<and> snd (ROOTToXGBoost quiet_lib ''root2xgboost.cxx'' empty_tree one_background_event
            [''x''] None None []) = []
   \<and> 0 < Count two_signal_events \<and> 0 < Count one_background_event
   \<and> fst (ROOTToXGBoost quiet_lib ''root2xgboost.cxx'' two_signal_events one_background_event
            [''x''] None None []) \<noteq> Inl division_by_zero"
  using balanced_weight_division_by_zero
      [of "[''x'']" empty_tree one_background_event quiet_lib "''root2xgboost.cxx''" None None "[]"]
    balanced_weight_division_by_zero
      [of "[''x'']" two_signal_events one_background_event quiet_lib "''root2xgboost.cxx''" None None "[]"]
  by (simp add: example_counts) (simp add: empty_tree_def one_background_event_def)

section \<open>Properties of the mixed-dataset adapter\<close>




text \<open>
  Claim C6. Called with a selector that is neither \<open>kTesting\<close> nor \<open>kTraining\<close>, the
  mixed-dataset adapter ends with the \<open>runtime_error\<close> for an unexpected tree type,
  whatever the events of the data set are, makes no library call and returns no bundle.
\<close>

theorem invalid_partition_selector:
  assumes "type \<noteq> kTesting" and "type \<noteq> kTraining"
  shows "ROOTToXGBoost_DataSetInfo lib path narrow dataset_info type tr =
           (Inl (runtime_error ''Unexpected treeType (must be either kTesting or kTraining).''), tr)"
  using assms by (simp add: ROOTToXGBoost_DataSetInfo_def partition_counts_def)

theorem invalid_partition_selector_witness:
  "kValidation \<noteq> kTesting \<and> kValidation \<noteq> kTraining
   \<and> ROOTToXGBoost_DataSetInfo quiet_lib ''root2xgboost.cxx'' (\<lambda>w. w) signal_then_background
        kValidation [] =
       (Inl (runtime_error ''Unexpected treeType (must be either kTesting or kTraining).''), [])"
  using invalid_partition_selector [of kValidation quiet_lib "''root2xgboost.cxx''" "\<lambda>w. w"
      signal_then_background "[]"]
  by simp

section \<open>Properties of the trainer and of the library calls\<close>

text \<open>
  Claim C7. If every call of the plan succeeds, \<open>xgboost_train\<close> returns the handle of
  the booster it created and has made exactly the calls of the plan, in order: the
  creation on the one matrix of the bundle, the options in the order given, and \<open>n_iter\<close>
  update iterations against that matrix. It returns a handle only then; the calls it
  makes are in every case an initial part of the plan, and for \<open>n_iter = 0\<close> the plan
  holds no update iteration.
\<close>

theorem xgboost_train_follows_plan:
  "(all_ok lib tr (train_plan (out_handle lib tr (XGBoosterCreate [sb_dmats data] 1)) data opts (unat n_iter))
      \<longrightarrow> xgboost_train lib path data opts n_iter tr =
            (Inr (out_handle lib tr (XGBoosterCreate [sb_dmats data] 1)),
             tr @ train_plan (out_handle lib tr (XGBoosterCreate [sb_dmats data] 1)) data opts (unat n_iter)))
   \<and> (\<forall>booster tr'. xgboost_train lib path data opts n_iter tr = (Inr booster, tr') \<longrightarrow>
         booster = out_handle lib tr (XGBoosterCreate [sb_dmats data] 1)
         \<and> tr' = tr @ train_plan booster data opts (unat n_iter)
         \<and> all_ok lib tr (train_plan booster data opts (unat n_iter))
         \<and> length (filter is_update (train_plan booster data opts (unat n_iter))) = unat n_iter)
   \<and> (\<exists>cs. snd (xgboost_train lib path data opts n_iter tr) = tr @ cs
           \<and> prefix cs (train_plan (out_handle lib tr (XGBoosterCreate [sb_dmats data] 1)) data opts
                          (unat n_iter)))
   \<and> (n_iter = 0 \<longrightarrow>
         train_plan (out_handle lib tr (XGBoosterCreate [sb_dmats data] 1)) data opts (unat n_iter)
           = XGBoosterCreate [sb_dmats data] 1
             # map (\<lambda>opt. XGBoosterSetParam (out_handle lib tr (XGBoosterCreate [sb_dmats data] 1))
                            (fst opt) (snd opt)) opts)"
proof -
  let ?b = "out_handle lib tr (XGBoosterCreate [sb_dmats data] 1)"
  let ?sites = "(140, ''XGBoosterCreate(data->sb_dmats, 1, &booster)'', XGBoosterCreate [sb_dmats data] 1)
           # map (\<lambda>opt. (143, ''XGBoosterSetParam(booster, opt.first, opt.second)'',
                          XGBoosterSetParam ?b (fst opt) (snd opt))) opts
           @ map (\<lambda>i. (148, ''XGBoosterUpdateOneIter(booster, iter, (data->sb_dmats)[0])'',
                        XGBoosterUpdateOneIter ?b (sint (word_of_nat i :: 32 word)) (sb_dmats data)))
               [0..<unat n_iter]"
  let ?plan = "train_plan ?b data opts (unat n_iter)"
  from xgboost_train_plan [of lib path data opts n_iter tr]
  have run: "xgboost_train lib path data opts n_iter tr = returning ?b (run_checked lib path ?sites tr)"
    and plan: "calls ?sites = ?plan"
    by blast+
  have ok: "all_ok lib tr ?plan \<longrightarrow> xgboost_train lib path data opts n_iter tr = (Inr ?b, tr @ ?plan)"
  proof (intro impI)
    assume "all_ok lib tr ?plan"
    then have "all_ok lib tr (calls ?sites)" by (simp only: plan)
    from returning_ok [OF this, of ?b path]
    show "xgboost_train lib path data opts n_iter tr = (Inr ?b, tr @ ?plan)"
      by (simp only: run plan)
  qed
  have ret: "\<forall>booster tr'. xgboost_train lib path data opts n_iter tr = (Inr booster, tr') \<longrightarrow>
         booster = ?b \<and> tr' = tr @ train_plan booster data opts (unat n_iter)
         \<and> all_ok lib tr (train_plan booster data opts (unat n_iter))
         \<and> length (filter is_update (train_plan booster data opts (unat n_iter))) = unat n_iter"
  proof (intro allI impI)
    fix booster tr'
    assume "xgboost_train lib path data opts n_iter tr = (Inr booster, tr')"
    then have "returning ?b (run_checked lib path ?sites tr) = (Inr booster, tr')"
      by (simp only: run)
    from returning_Inr [OF this]
    have "booster = ?b \<and> all_ok lib tr ?plan \<and> tr' = tr @ ?plan"
      by (simp only: plan)
    then show "booster = ?b \<and> tr' = tr @ train_plan booster data opts (unat n_iter)
         \<and> all_ok lib tr (train_plan booster data opts (unat n_iter))
         \<and> length (filter is_update (train_plan booster data opts (unat n_iter))) = unat n_iter"
      by (simp add: updates_in_plan)
  qed
  have pre: "\<exists>cs. snd (xgboost_train lib path data opts n_iter tr) = tr @ cs \<and> prefix cs ?plan"
    using returning_prefix [of ?b lib path ?sites tr] by (simp only: run plan)
  have zero: "n_iter = 0 \<longrightarrow> ?plan = XGBoosterCreate [sb_dmats data] 1
             # map (\<lambda>opt. XGBoosterSetParam ?b (fst opt) (snd opt)) opts"
    by (simp add: train_plan_def)
  from ok ret pre zero show ?thesis by blast
qed

theorem xgboost_train_follows_plan_witness:
  "all_ok quiet_lib []
     (train_plan (out_handle quiet_lib [] (XGBoosterCreate [sb_dmats converted_bundle] 1))
        converted_bundle [(''max_depth'', ''3''), (''eta'', ''1'')] (unat (2 :: 32 word)))
   \<and> xgboost_train quiet_lib ''root2xgboost.cxx'' converted_bundle
        [(''max_depth'', ''3''), (''eta'', ''1'')] 2 [] =
      (Inr 0,
       [XGBoosterCreate [Some 0] 1,
        XGBoosterSetParam 0 ''max_depth'' ''3'',
        XGBoosterSetParam 0 ''eta'' ''1'',
        XGBoosterUpdateOneIter 0 0 (Some 0),
        XGBoosterUpdateOneIter 0 1 (Some 0)])
   \<and> xgboost_train quiet_lib ''root2xgboost.cxx'' converted_bundle
        [(''max_depth'', ''3''), (''eta'', ''1'')] 0 [] =
      (Inr 0,
       [XGBoosterCreate [Some 0] 1,
        XGBoosterSetParam 0 ''max_depth'' ''3'',
        XGBoosterSetParam 0 ''eta'' ''1''])"
proof -
  have h: "out_handle quiet_lib [] (XGBoosterCreate [sb_dmats converted_bundle] 1) = 0"
    by (simp add: quiet_lib_def)
  have plan2: "train_plan 0 converted_bundle [(''max_depth'', ''3''), (''eta'', ''1'')]
                 (unat (2 :: 32 word)) =
               [XGBoosterCreate [Some 0] 1,
                XGBoosterSetParam 0 ''max_depth'' ''3'',
                XGBoosterSetParam 0 ''eta'' ''1'',
                XGBoosterUpdateOneIter 0 0 (Some 0),
                XGBoosterUpdateOneIter 0 1 (Some 0)]"
    by code_simp
  have plan0: "train_plan 0 converted_bundle [(''max_depth'', ''3''), (''eta'', ''1'')]
                 (unat (0 :: 32 word)) =
               [XGBoosterCreate [Some 0] 1,
                XGBoosterSetParam 0 ''max_depth'' ''3'',
                XGBoosterSetParam 0 ''eta'' ''1'']"
    by code_simp
  from xgboost_train_follows_plan
    [of quiet_lib "[]" converted_bundle "[(''max_depth'', ''3''), (''eta'', ''1'')]" 2
        "''root2xgboost.cxx''"]
  have "xgboost_train quiet_lib ''root2xgboost.cxx'' converted_bundle
          [(''max_depth'', ''3''), (''eta'', ''1'')] 2 [] =
        (Inr (out_handle quiet_lib [] (XGBoosterCreate [sb_dmats converted_bundle] 1)),
         [] @ train_plan (out_handle quiet_lib [] (XGBoosterCreate [sb_dmats converted_bundle] 1))
                converted_bundle [(''max_depth'', ''3''), (''eta'', ''1'')] (unat (2 :: 32 word)))"
    using all_ok_quiet_lib by blast
  then have r2: "xgboost_train quiet_lib ''root2xgboost.cxx'' converted_bundle
        [(''max_depth'', ''3''), (''eta'', ''1'')] 2 [] =
      (Inr 0,
       [XGBoosterCreate [Some 0] 1,
        XGBoosterSetParam 0 ''max_depth'' ''3'',
        XGBoosterSetParam 0 ''eta'' ''1'',
        XGBoosterUpdateOneIter 0 0 (Some 0),
        XGBoosterUpdateOneIter 0 1 (Some 0)])"
    by (simp only: h plan2 append_Nil)
  from xgboost_train_follows_plan
    [of quiet_lib "[]" converted_bundle "[(''max_depth'', ''3''), (''eta'', ''1'')]" 0
        "''root2xgboost.cxx''"]
  have "xgboost_train quiet_lib ''root2xgboost.cxx'' converted_bundle
          [(''max_depth'', ''3''), (''eta'', ''1'')] 0 [] =
        (Inr (out_handle quiet_lib [] (XGBoosterCreate [sb_dmats converted_bundle] 1)),
         [] @ train_plan (out_handle quiet_lib [] (XGBoosterCreate [sb_dmats converted_bundle] 1))
                converted_bundle [(''max_depth'', ''3''), (''eta'', ''1'')] (unat (0 :: 32 word)))"
    using all_ok_quiet_lib by blast
  then have r0: "xgboost_train quiet_lib ''root2xgboost.cxx'' converted_bundle
        [(''max_depth'', ''3''), (''eta'', ''1'')] 0 [] =
      (Inr 0,
       [XGBoosterCreate [Some 0] 1,
        XGBoosterSetParam 0 ''max_depth'' ''3'',
        XGBoosterSetParam 0 ''eta'' ''1''])"
    by (simp only: h plan0 append_Nil)
  from r2 r0 all_ok_quiet_lib show ?thesis by blast
qed

text \<open>
  Claim C8. In both adapters, in the trainer and in the release method, a library call
  that returns a status other than zero is the last call the operation makes, and the
  operation ends with a \<open>runtime_error\<close> whose message holds the text of that call and
  the library's last error; no bundle and no handle is returned.
\<close>

theorem every_library_call_is_checked:
  "status_checked lib tr (ROOTToXGBoost lib path sg bg variables sig_weight bgd_weight tr)
   \<and> status_checked lib tr (ROOTToXGBoost_DataSetInfo lib path narrow dataset_info type tr)
   \<and> status_checked lib tr (xgboost_train lib path data opts n_iter tr)
   \<and> status_checked lib tr (free lib path data tr)"
proof (intro conjI)
  show "status_checked lib tr (ROOTToXGBoost lib path sg bg variables sig_weight bgd_weight tr)"
    using ROOTToXGBoost_cases [of lib path sg bg variables sig_weight bgd_weight tr]
  proof (elim disjE exE)
    fix e assume "ROOTToXGBoost lib path sg bg variables sig_weight bgd_weight tr = (Inl e, tr)"
    then show ?thesis by (simp only: status_checked_pure)
  next
    fix m d
    assume "ROOTToXGBoost lib path sg bg variables sig_weight bgd_weight tr =
               populate_dmatrix lib path
                 71 (''XGDMatrixCreateFromMat((Float_t*) sb_mat, *n_sig + *n_bgd, n_vars, 0, ''
                     @ ''&((data->sb_dmats)[0]))'')
                 72 (''XGDMatrixSetFloatInfo((data->sb_dmats)[0], '' @ [CHR 0x22] @ ''label'' @ [CHR 0x22]
                     @ '', data->labels, *n_sig + *n_bgd)'')
                 m (Count sg + Count bg) (length variables) d tr"
    then show ?thesis
      by (simp only:) (rule status_checked_populate_dmatrix, simp_all)
  qed
  show "status_checked lib tr (ROOTToXGBoost_DataSetInfo lib path narrow dataset_info type tr)"
    using ROOTToXGBoost_DataSetInfo_cases [of lib path narrow dataset_info type tr]
  proof (elim disjE exE)
    fix e assume "ROOTToXGBoost_DataSetInfo lib path narrow dataset_info type tr = (Inl e, tr)"
    then show ?thesis by (simp only: status_checked_pure)
  next
    fix m d n
    assume "ROOTToXGBoost_DataSetInfo lib path narrow dataset_info type tr =
               populate_dmatrix lib path
                 131 (''XGDMatrixCreateFromMat((Float_t*) sb_mat, n_sig + n_bgd, n_vars, 0, ''
                      @ ''&((data->sb_dmats)[0]))'')
                 132 (''XGDMatrixSetFloatInfo((data->sb_dmats)[0], '' @ [CHR 0x22] @ ''label''
                      @ [CHR 0x22] @ '', data->labels, n_sig + n_bgd)'')
                 m n (GetNVariables (GetDataSet dataset_info)) d tr"
    then show ?thesis
      by (simp only:) (rule status_checked_populate_dmatrix, simp_all)
  qed
  show "status_checked lib tr (xgboost_train lib path data opts n_iter tr)"
    by (rule status_checked_xgboost_train)
  show "status_checked lib tr (free lib path data tr)"
    by (rule status_checked_free)
qed

theorem every_library_call_is_checked_witness:
  "status_checked failing_lib []
     (ROOTToXGBoost failing_lib ''root2xgboost.cxx'' two_signal_events one_background_event
        [''y'', ''x''] (Some 5) (Some 7) [])
   \<and> status failing_lib
        [XGDMatrixCreateFromMat [Some 2, Some 1, Some 4, Some 3, Some 6, Some 5] 3 2 0]
        (XGDMatrixSetFloatInfo (Some 0) ''label'' [Some 0, Some 0, Some 1] 3) \<noteq> 0
   \<and> ROOTToXGBoost failing_lib ''root2xgboost.cxx'' two_signal_events one_background_event
        [''y'', ''x''] (Some 5) (Some 7) [] =
      (Inl (runtime_error
             (''root2xgboost.cxx:72: error in XGDMatrixSetFloatInfo((data->sb_dmats)[0], ''
              @ [CHR 0x22] @ ''label'' @ [CHR 0x22] @ '', data->labels, *n_sig + *n_bgd):boom'')),
       [XGDMatrixCreateFromMat [Some 2, Some 1, Some 4, Some 3, Some 6, Some 5] 3 2 0,
        XGDMatrixSetFloatInfo (Some 0) ''label'' [Some 0, Some 0, Some 1] 3])
   \<and> status_checked failing_lib []
        (xgboost_train failing_lib ''root2xgboost.cxx'' converted_bundle [(''max_depth'', ''3'')] 5 [])
   \<and> xgboost_train failing_lib ''root2xgboost.cxx'' converted_bundle [(''max_depth'', ''3'')] 5 [] =
      (Inl (runtime_error
             ''root2xgboost.cxx:143: error in XGBoosterSetParam(booster, opt.first, opt.second):boom''),
       [XGBoosterCreate [Some 0] 1, XGBoosterSetParam 0 ''max_depth'' ''3''])"
  using every_library_call_is_checked
    [of failing_lib "[]" "''root2xgboost.cxx''" two_signal_events one_background_event
        "[''y'', ''x'']" "Some 5" "Some 7" "\<lambda>w. w" signal_then_background kTraining
        converted_bundle "[(''max_depth'', ''3'')]" 5]
    failing_run failing_train_run
  by (simp add: failing_lib_def)

text \<open>
  Claim C9. Whenever an adapter returns a bundle, the library has been given two calls
  only, the creation of the matrix and the attachment of the label array under the name
  \<open>label\<close>; the weight array is in the bundle, and another choice of the weights (other
  weight arguments for the tree-pair adapter, another narrowing of the event weights for
  the mixed-dataset adapter) changes the weight array of the bundle and nothing else,
  neither the calls nor the rest of the bundle. The trainer makes the same calls and
  returns the same result whatever the weight array of the bundle holds.
\<close>

theorem weights_never_reach_the_library:
  "(\<forall>data tr'. ROOTToXGBoost lib path sg bg variables sig_weight bgd_weight tr = (Inr data, tr') \<longrightarrow>
      length (weights data) = Count sg + Count bg
      \<and> (\<exists>buf h. tr' = tr @ [XGDMatrixCreateFromMat buf (Count sg + Count bg) (length variables) 0,
                             XGDMatrixSetFloatInfo (Some h) ''label'' (labels data)
                               (Count sg + Count bg)])
      \<and> (\<forall>sig_weight' bgd_weight' data2 tr2.
            ROOTToXGBoost lib path sg bg variables sig_weight' bgd_weight' tr = (Inr data2, tr2) \<longrightarrow>
            tr2 = tr' \<and> data2\<lparr>weights := weights data\<rparr> = data))
   \<and> (\<forall>data tr'. ROOTToXGBoost_DataSetInfo lib path narrow dataset_info type tr = (Inr data, tr') \<longrightarrow>
        (\<exists>buf h nrow.
            tr' = tr @ [XGDMatrixCreateFromMat buf nrow (GetNVariables (GetDataSet dataset_info)) 0,
                        XGDMatrixSetFloatInfo (Some h) ''label'' (labels data) nrow])
        \<and> (\<forall>narrow' data2 tr2.
              ROOTToXGBoost_DataSetInfo lib path narrow' dataset_info type tr = (Inr data2, tr2) \<longrightarrow>
              tr2 = tr' \<and> data2\<lparr>weights := weights data\<rparr> = data))
   \<and> (\<forall>data ws opts n_iter tr.
        xgboost_train lib path (data\<lparr>weights := ws\<rparr>) opts n_iter tr
          = xgboost_train lib path data opts n_iter tr)"
proof (intro conjI allI impI)
  fix data tr'
  assume run: "ROOTToXGBoost lib path sg bg variables sig_weight bgd_weight tr = (Inr data, tr')"
  from ROOTToXGBoost_returns [OF run]
  show "length (weights data) = Count sg + Count bg" by auto
  from ROOTToXGBoost_returns [OF run]
  show "\<exists>buf h. tr' = tr @ [XGDMatrixCreateFromMat buf (Count sg + Count bg) (length variables) 0,
                            XGDMatrixSetFloatInfo (Some h) ''label'' (labels data) (Count sg + Count bg)]"
    by auto
  fix sig_weight' bgd_weight' data2 tr2
  assume "ROOTToXGBoost lib path sg bg variables sig_weight' bgd_weight' tr = (Inr data2, tr2)"
  from ROOTToXGBoost_weights_irrelevant [OF run this]
  show "tr2 = tr'" and "data2\<lparr>weights := weights data\<rparr> = data" by simp_all
next
  fix data tr'
  assume run: "ROOTToXGBoost_DataSetInfo lib path narrow dataset_info type tr = (Inr data, tr')"
  from ROOTToXGBoost_DataSetInfo_returns [OF run]
  show "\<exists>buf h nrow.
            tr' = tr @ [XGDMatrixCreateFromMat buf nrow (GetNVariables (GetDataSet dataset_info)) 0,
                        XGDMatrixSetFloatInfo (Some h) ''label'' (labels data) nrow]"
    by auto
  fix narrow' data2 tr2
  assume "ROOTToXGBoost_DataSetInfo lib path narrow' dataset_info type tr = (Inr data2, tr2)"
  from ROOTToXGBoost_DataSetInfo_weights_irrelevant [OF run this]
  show "tr2 = tr'" and "data2\<lparr>weights := weights data\<rparr> = data" by simp_all
next
  fix data ws opts n_iter tr
  show "xgboost_train lib path (data\<lparr>weights := ws\<rparr>) opts n_iter tr
          = xgboost_train lib path data opts n_iter tr"
    by (rule xgboost_train_ignores_weights)
qed

theorem weights_never_reach_the_library_witness:
  "ROOTToXGBoost quiet_lib ''root2xgboost.cxx'' two_signal_events one_background_event
     [''y'', ''x''] (Some 5) (Some 7) [] =
   (Inr \<lparr> sb_dmats = Some 0, weights = [Some 5, Some 5, Some 7],
          labels = [Some 0, Some 0, Some 1], n_sig = 2, n_bgd = 1 \<rparr>,
    [XGDMatrixCreateFromMat [Some 2, Some 1, Some 4, Some 3, Some 6, Some 5] 3 2 0,
     XGDMatrixSetFloatInfo (Some 0) ''label'' [Some 0, Some 0, Some 1] 3])
   \<and> ROOTToXGBoost quiet_lib ''root2xgboost.cxx'' two_signal_events one_background_event
       [''y'', ''x''] None (Some 7) [] =
     (Inr \<lparr> sb_dmats = Some 0, weights = [Some 1, Some 1, Some 7],
            labels = [Some 0, Some 0, Some 1], n_sig = 2, n_bgd = 1 \<rparr>,
      [XGDMatrixCreateFromMat [Some 2, Some 1, Some 4, Some 3, Some 6, Some 5] 3 2 0,
       XGDMatrixSetFloatInfo (Some 0) ''label'' [Some 0, Some 0, Some 1] 3])
   \<and> \<lparr> sb_dmats = Some 0, weights = [Some 1, Some 1, Some 7],
        labels = [Some 0, Some 0, Some 1], n_sig = 2, n_bgd = 1 \<rparr>
        \<lparr>weights := weights \<lparr> sb_dmats = Some 0, weights = [Some 5, Some 5, Some 7],
                               labels = [Some 0, Some 0, Some 1], n_sig = 2, n_bgd = 1 \<rparr>\<rparr>
      = \<lparr> sb_dmats = Some 0, weights = [Some 5, Some 5, Some 7],
          labels = [Some 0, Some 0, Some 1], n_sig = 2, n_bgd = 1 \<rparr>
   \<and> xgboost_train quiet_lib ''root2xgboost.cxx''
        (converted_bundle\<lparr>weights := [Some 1, Some 1, Some 7]\<rparr>) [(''max_depth'', ''3'')] 2 []
      = xgboost_train quiet_lib ''root2xgboost.cxx'' converted_bundle [(''max_depth'', ''3'')] 2 []"
proof -
  note all = weights_never_reach_the_library
      [of quiet_lib "''root2xgboost.cxx''" two_signal_events one_background_event "[''y'', ''x'']"
          "Some 5" "Some 7" "[]" "\<lambda>w. w" signal_then_background kTraining]
  note first_run = all [THEN conjunct1, rule_format, OF weighted_run]
  note other_run = first_run [THEN conjunct2, THEN conjunct2, rule_format, OF example_run]
  note train = all [THEN conjunct2, THEN conjunct2, rule_format]
  show ?thesis
    by (intro conjI) (rule weighted_run, rule example_run, rule other_run [THEN conjunct2], rule train)
qed

end
